theory Spec2Isabelle
  imports Main "HOL-Library.Sublist" "HOL-Library.List_Lexorder" "HOL-Library.Char_ord"
begin

section \<open>JavaScript strings and arrays\<close>

text \<open>
  The crawler (\<^verbatim>\<open>src/crawl.js\<close>) is JavaScript. Its strings are modelled as
  \<^typ>\<open>string\<close>, one \<^typ>\<open>char\<close> per code unit (code units below 256). An exception is
  a value of \<open>error\<close>; every expression that can throw returns \<open>error + 'a\<close>.
  Reading a property of \<^verbatim>\<open>undefined\<close> or \<^verbatim>\<open>null\<close> is a \<open>TypeError\<close>; a puppeteer wait that
  runs out of time is a \<open>TimeoutError\<close>; a query that the store rejects is a \<open>StoreError\<close>.
\<close>

datatype error = TypeError | TimeoutError | StoreError

text \<open>\<^verbatim>\<open>xs[i]\<close>: \<open>None\<close> is JavaScript's \<^verbatim>\<open>undefined\<close>.\<close>

definition idx :: "'a list \<Rightarrow> nat \<Rightarrow> 'a option" where
  "idx xs i = (if i < length xs then Some (xs ! i) else None)"

text \<open>\<^verbatim>\<open>x.m(...)\<close> on a value that may be \<^verbatim>\<open>undefined\<close>: the call throws.\<close>

definition defined :: "'a option \<Rightarrow> error + 'a" where
  "defined v = (case v of None \<Rightarrow> Inl TypeError | Some x \<Rightarrow> Inr x)"

definition bindE :: "error + 'a \<Rightarrow> ('a \<Rightarrow> error + 'b) \<Rightarrow> error + 'b" where
  "bindE m f = (case m of Inl e \<Rightarrow> Inl e | Inr x \<Rightarrow> f x)"

text \<open>\<^verbatim>\<open>s.includes(sub)\<close>.\<close>

fun str_includes :: "string \<Rightarrow> string \<Rightarrow> bool" where
  "str_includes [] sub = (sub = [])"
| "str_includes (c # cs) sub = (prefix sub (c # cs) \<or> str_includes cs sub)"

text \<open>
  \<^verbatim>\<open>s.split(sep)\<close>: the text between the successive, non-overlapping occurrences of
  \<open>sep\<close>, leftmost first. \<open>cur\<close> is the piece being read.
\<close>

function splitFrom :: "string \<Rightarrow> string \<Rightarrow> string \<Rightarrow> string list" where
  "splitFrom sep cur [] = [cur]"
| "splitFrom sep cur (c # cs) =
     (if sep \<noteq> [] \<and> prefix sep (c # cs)
      then cur # splitFrom sep [] (drop (length sep) (c # cs))
      else splitFrom sep (cur @ [c]) cs)"
  by pat_completeness auto
termination
  by (relation "measure (\<lambda>(sep, cur, s). length s)") auto

definition str_split :: "string \<Rightarrow> string \<Rightarrow> string list" where
  "str_split sep s = (if sep = [] then map (\<lambda>c. [c]) s else splitFrom sep [] s)"

text \<open>
  White space as \<^verbatim>\<open>trim\<close> and \<^verbatim>\<open>parseInt\<close> strip it: TAB, LF, VT, FF, CR, SP and NBSP
  (the white space and line terminators below 256).
\<close>

definition isWhiteSpace :: "char \<Rightarrow> bool" where
  "isWhiteSpace c = (c \<in> set [CHR 0x09, CHR 0x0A, CHR 0x0B, CHR 0x0C, CHR 0x0D, CHR 0x20, CHR 0xA0])"

definition trim :: "string \<Rightarrow> string" where
  "trim s = rev (dropWhile isWhiteSpace (rev (dropWhile isWhiteSpace s)))"

text \<open>\<^verbatim>\<open>s.replace(pat, rep)\<close> with a string pattern: the first occurrence only.\<close>

fun str_replace :: "string \<Rightarrow> string \<Rightarrow> string \<Rightarrow> string" where
  "str_replace pat rep [] = (if pat = [] then rep else [])"
| "str_replace pat rep (c # cs) =
     (if prefix pat (c # cs) then rep @ drop (length pat) (c # cs)
      else c # str_replace pat rep cs)"

subsection \<open>parseInt\<close>

text \<open>
  A JavaScript number as \<^verbatim>\<open>parseInt\<close> can return it: \<^verbatim>\<open>NaN\<close>, an integer that a double
  holds, or an infinity.
\<close>

datatype js_number = NaN | Finite int | PlusInfinity | MinusInfinity

text \<open>The number of binary digits of a natural number.\<close>

function bitLength :: "int \<Rightarrow> nat" where
  "bitLength n = (if n \<le> 0 then 0 else Suc (bitLength (n div 2)))"
  by pat_completeness auto
termination
  by (relation "measure nat") auto

text \<open>
  The double nearest to a natural number: the number itself when it has at most 53
  binary digits, else its leading 53 digits rounded to nearest, ties to even; \<open>None\<close> when
  the result reaches \<open>2^1024\<close>, which is an infinity.
\<close>

definition toDouble :: "int \<Rightarrow> int option" where
  "toDouble n =
     (let b = bitLength n in
      if b \<le> 53 then Some n
      else
        (let sh = b - 53;
             q = n div 2 ^ sh;
             r = n mod 2 ^ sh;
             half = 2 ^ (sh - 1);
             q' = (if half < r \<or> (r = half \<and> odd q) then q + 1 else q);
             v = q' * 2 ^ sh
         in if 2 ^ 1024 \<le> v then None else Some v))"

text \<open>
  \<^verbatim>\<open>parseInt(s)\<close> with no radix: leading white space is skipped, then an optional sign,
  then \<^verbatim>\<open>0x\<close>/\<^verbatim>\<open>0X\<close> selects radix 16, then the longest run of digits is read. With no
  digit the result is \<^verbatim>\<open>NaN\<close>; else it is the double nearest to the integer read, with the
  sign.
\<close>

definition digitValue :: "char \<Rightarrow> int option" where
  "digitValue c =
     (let n = (of_char c :: int) in
      if 48 \<le> n \<and> n \<le> 57 then Some (n - 48)
      else if 97 \<le> n \<and> n \<le> 102 then Some (n - 87)
      else if 65 \<le> n \<and> n \<le> 70 then Some (n - 55)
      else None)"

definition isDigit :: "int \<Rightarrow> char \<Rightarrow> bool" where
  "isDigit radix c = (case digitValue c of None \<Rightarrow> False | Some d \<Rightarrow> d < radix)"

definition digitsValue :: "int \<Rightarrow> string \<Rightarrow> int" where
  "digitsValue radix ds =
     foldl (\<lambda>a c. a * radix + (case digitValue c of None \<Rightarrow> 0 | Some d \<Rightarrow> d)) 0 ds"

definition parseInt :: "string \<Rightarrow> js_number" where
  "parseInt s =
     (let t = dropWhile isWhiteSpace s;
          neg = (case t of [] \<Rightarrow> False | c # r \<Rightarrow> c = CHR ''-'');
          u = (case t of [] \<Rightarrow> [] | c # r \<Rightarrow> if c = CHR ''-'' \<or> c = CHR ''+'' then r else t);
          hex = (prefix ''0x'' u \<or> prefix ''0X'' u);
          radix = (if hex then 16 else 10);
          ds = takeWhile (isDigit radix) (if hex then drop 2 u else u)
      in if ds = [] then NaN
         else (case toDouble (digitsValue radix ds) of
                 None \<Rightarrow> if neg then MinusInfinity else PlusInfinity
               | Some v \<Rightarrow> Finite (if neg then - v else v)))"

subsection \<open>The three regular expressions\<close>

text \<open>
  \<^verbatim>\<open>.\<close> matches any code unit but a line terminator. \<^verbatim>\<open>s.match(re)\<close> with the \<^verbatim>\<open>g\<close> flag
  returns \<^verbatim>\<open>null\<close> when nothing matches, else the array of matches; the functions below
  give its element 0, \<open>None\<close> for \<^verbatim>\<open>null\<close>.
\<close>

definition dotChar :: "char \<Rightarrow> bool" where
  "dotChar c = (c \<noteq> CHR 0x0A \<and> c \<noteq> CHR 0x0D)"

text \<open>
  \<^verbatim>\<open>/(?<=label).*/g\<close>: the first position preceded by \<open>label\<close> is the end of the first
  occurrence of \<open>label\<close>; the match is the rest of that line (possibly empty).
\<close>

fun afterLabel :: "string \<Rightarrow> string \<Rightarrow> string option" where
  "afterLabel label [] = (if label = [] then Some [] else None)"
| "afterLabel label (c # cs) =
     (if prefix label (c # cs) then Some (takeWhile dotChar (drop (length label) (c # cs)))
      else afterLabel label cs)"

text \<open>
  \<^verbatim>\<open>/.+?(?=word)/g\<close>: from a start position, the lazy \<^verbatim>\<open>.+?\<close> takes one character and then
  one more at a time until \<open>word\<close> follows; a line terminator or the end of the text
  fails that start position and the next one is tried.
\<close>

fun lazyUntil :: "string \<Rightarrow> string \<Rightarrow> string \<Rightarrow> string option" where
  "lazyUntil word acc [] = None"
| "lazyUntil word acc (c # cs) =
     (if \<not> dotChar c then None
      else if prefix word cs then Some (acc @ [c])
      else lazyUntil word (acc @ [c]) cs)"

fun beforeWord :: "string \<Rightarrow> string \<Rightarrow> string option" where
  "beforeWord word [] = None"
| "beforeWord word (c # cs) =
     (case lazyUntil word [] (c # cs) of
        Some m \<Rightarrow> Some m
      | None \<Rightarrow> beforeWord word cs)"

text \<open>\<^verbatim>\<open>s || null\<close> for a string: the empty string is falsy.\<close>

definition orNull :: "string \<Rightarrow> string option" where
  "orNull s = (if s = [] then None else Some s)"

text \<open>\<^verbatim>\<open>n || null\<close> for a number: \<^verbatim>\<open>NaN\<close> and zero are falsy.\<close>

definition numOrNull :: "js_number \<Rightarrow> js_number option" where
  "numOrNull n = (if n = NaN \<or> n = Finite 0 then None else Some n)"


section \<open>The listing page\<close>

text \<open>
  What \<^verbatim>\<open>page.$$eval('th a', ...)\<close> reads of the listing page: for each header link (in
  document order) its \<^verbatim>\<open>innerText\<close> and the element
  \<^verbatim>\<open>parentElement.parentElement.nextElementSibling\<close> (\<open>None\<close> when there is none), of which
  the callback reads the \<^verbatim>\<open>innerText\<close> and the first \<^verbatim>\<open>table\<close> inside it (\<open>None\<close> for
  \<^verbatim>\<open>null\<close>). Of a table it reads the \<^verbatim>\<open>innerText\<close> of its \<^verbatim>\<open>td\<close> cells and the \<^verbatim>\<open>href\<close> of its
  first \<^verbatim>\<open>td a\<close>.
\<close>

record class_table =
  tds :: "string list"
  tdLink :: "string option"

record description_element =
  descriptionText :: string
  classTable :: "class_table option"

record header_link =
  headerText :: string
  descriptionElement :: "description_element option"

text \<open>
  \<open>DateToString arg\<close> stands for \<^verbatim>\<open>new Date(arg).toString()\<close>; how the host reads a date
  is not modelled.
\<close>

datatype date_string = DateToString string

text \<open>
  The object \<^verbatim>\<open>info\<close>. For the six fields read from the header line \<open>None\<close> is
  \<^verbatim>\<open>undefined\<close>; for the others it is \<^verbatim>\<open>null\<close>.
\<close>

record crn_info =
  crn :: "string option"
  subject :: "string option"
  classTitle :: "string option"
  classShortName :: "string option"
  classNumber :: "string option"
  classSection :: "string option"
  classType :: "string option"
  isLab :: "bool option"
  instructor :: "string option"
  startTime :: "date_string option"
  endTime :: "date_string option"
  isSunday :: bool
  isMonday :: bool
  isTuesday :: bool
  isWednesday :: bool
  isThursday :: bool
  levels :: "string option"
  attributes :: "string option"
  scheduleType :: "string option"
  credits :: "js_number option"
  classroom :: "string option"
  seatsAvailable :: "bool option"

record instructor_info =
  name :: string
  email :: string

record total_results =
  crnInfo :: "crn_info list"
  instructorInfo :: "instructor_info list"

text \<open>A template literal prints \<^verbatim>\<open>undefined\<close> by its name.\<close>

definition templateStr :: "string option \<Rightarrow> string" where
  "templateStr v = (case v of None \<Rightarrow> ''undefined'' | Some s \<Rightarrow> s)"

section \<open>RecordExtractor: the callback of \<^verbatim>\<open>totalResults\<close> (crawl.js, lines 88 to 195)\<close>

text \<open>Lines 101 to 124: the object built when \<^verbatim>\<open>classTable === null\<close>.\<close>

definition placeholderInfo :: "string list \<Rightarrow> string \<Rightarrow> error + crn_info" where
  "placeholderInfo crnTitle text =
     bindE (defined (idx crnTitle 2)) (\<lambda>t2.
     bindE (defined (afterLabel ''Levels: '' text)) (\<lambda>lv.
     bindE (defined (beforeWord '' Schedule'' text)) (\<lambda>sch.
     bindE (defined (beforeWord '' Credits'' text)) (\<lambda>cr.
     Inr \<lparr> crn = idx crnTitle 1,
           subject = idx (str_split '' '' t2) 0,
           classTitle = idx crnTitle 0,
           classShortName = Some t2,
           classNumber = idx (str_split '' '' t2) 1,
           classSection = idx crnTitle 3,
           classType = None,
           isLab = None,
           instructor = None,
           startTime = None,
           endTime = None,
           isSunday = False,
           isMonday = False,
           isTuesday = False,
           isWednesday = False,
           isThursday = False,
           levels = orNull lv,
           attributes = None,
           scheduleType = orNull sch,
           credits = numOrNull (parseInt cr),
           classroom = None,
           seatsAvailable = None \<rparr>))))"

text \<open>Lines 126 to 149: the object built when the detail block has a table.\<close>

definition tableInfo :: "string list \<Rightarrow> string \<Rightarrow> class_table \<Rightarrow> error + crn_info" where
  "tableInfo crnTitle text t =
     bindE (defined (idx crnTitle 2)) (\<lambda>t2.
     bindE (defined (idx (tds t) 6)) (\<lambda>td6.
     bindE (defined (idx (tds t) 7)) (\<lambda>td7.
     bindE (defined (idx (tds t) 1)) (\<lambda>td1.
     bindE (defined (afterLabel ''Levels: '' text)) (\<lambda>lv.
     bindE (defined (beforeWord '' Schedule'' text)) (\<lambda>sch.
     bindE (defined (beforeWord '' Credits'' text)) (\<lambda>cr.
     bindE (defined (idx (tds t) 4)) (\<lambda>td4.
     bindE (defined (idx (tds t) 3)) (\<lambda>td3.
     Inr \<lparr> crn = idx crnTitle 1,
           subject = idx (str_split '' '' t2) 0,
           classTitle = idx crnTitle 0,
           classShortName = Some t2,
           classNumber = idx (str_split '' '' t2) 1,
           classSection = idx crnTitle 3,
           classType = Some td6,
           isLab = Some (length crnTitle = 5 \<or> td6 = ''Lab''),
           instructor = idx (str_split ''(P)'' td7) 0,
           startTime = Some (DateToString (''0, '' @ templateStr (idx (str_split '' - '' td1) 0))),
           endTime = Some (DateToString (''0, '' @ templateStr (idx (str_split '' - '' td1) 1))),
           isSunday = False,
           isMonday = False,
           isTuesday = False,
           isWednesday = False,
           isThursday = False,
           levels = orNull lv,
           attributes = None,
           scheduleType = orNull sch,
           credits = numOrNull (parseInt cr),
           classroom = Some td4,
           seatsAvailable = Some (td3 = ''Y'') \<rparr>)))))))))"

text \<open>Lines 151 to 154: \<^verbatim>\<open>instructorInfo\<close>.\<close>

definition instructorOf :: "crn_info \<Rightarrow> class_table \<Rightarrow> error + instructor_info" where
  "instructorOf info t =
     bindE (defined (idx (tds t) 7)) (\<lambda>td7.
     bindE (defined (idx (str_split ''(P)'' td7) 0)) (\<lambda>n.
     bindE (if instructor info = Some ''TBA'' then Inr ''none''
            else (case tdLink t of
                    None \<Rightarrow> Inr ''none''
                  | Some href \<Rightarrow>
                      bindE (defined (idx (str_split ''mailto:'' href) 1)) (\<lambda>a. Inr (trim a)))) (\<lambda>e.
     Inr \<lparr> name = trim n, email = e \<rparr>)))"

text \<open>Lines 157 to 168: the cascade over the meeting days.\<close>

definition setDays :: "string \<Rightarrow> crn_info \<Rightarrow> crn_info" where
  "setDays days info =
     (if str_includes days ''U'' then info\<lparr>isSunday := True\<rparr>
      else if str_includes days ''M'' then info\<lparr>isMonday := True\<rparr>
      else if str_includes days ''T'' then info\<lparr>isTuesday := True\<rparr>
      else if str_includes days ''W'' then info\<lparr>isWednesday := True\<rparr>
      else if str_includes days ''R'' then info\<lparr>isThursday := True\<rparr>
      else info)"

text \<open>
  Lines 100 to 169: the record, and the instructor record that line 155 pushes (only in
  the branch with a table).
\<close>

definition baseInfo ::
  "string list \<Rightarrow> description_element \<Rightarrow> error + (crn_info \<times> instructor_info option)" where
  "baseInfo crnTitle d =
     (case classTable d of
        None \<Rightarrow>
          bindE (placeholderInfo crnTitle (descriptionText d)) (\<lambda>info. Inr (info, None))
      | Some t \<Rightarrow>
          bindE (tableInfo crnTitle (descriptionText d) t) (\<lambda>info.
          bindE (instructorOf info t) (\<lambda>ins.
          bindE (defined (idx (tds t) 2)) (\<lambda>days.
          Inr (setDays days info, Some ins)))))"

text \<open>Lines 173 to 178: the assignments of the branch for the lab line.\<close>

definition remapLab :: "string list \<Rightarrow> crn_info \<Rightarrow> error + crn_info" where
  "remapLab crnTitle info =
     bindE (defined (idx crnTitle 3)) (\<lambda>t3.
     Inr (info\<lparr> crn := idx crnTitle 2,
               subject := idx (str_split '' '' t3) 0,
               classNumber := idx (str_split '' '' t3) 1,
               classTitle := Some (templateStr (idx crnTitle 0) @ '' '' @ templateStr (idx crnTitle 1)),
               classShortName := Some t3,
               classSection := idx crnTitle 4 \<rparr>))"

text \<open>Lines 180 to 185: the assignments of the branch for \<^verbatim>\<open>Targeted eLipo\<close>.\<close>

definition remapELipo :: "string list \<Rightarrow> crn_info \<Rightarrow> error + crn_info" where
  "remapELipo crnTitle info =
     bindE (defined (idx crnTitle 3)) (\<lambda>t3.
     Inr (info\<lparr> crn := idx crnTitle 2,
               subject := idx (str_split '' '' t3) 0,
               classNumber := idx (str_split '' '' t3) 1,
               classTitle := Some (templateStr (idx crnTitle 0) @ '' '' @ templateStr (idx crnTitle 1)),
               classShortName := Some t3,
               classSection := idx crnTitle 4 \<rparr>))"

text \<open>
  Lines 172 to 186. The first test reads \<^verbatim>\<open>crnTitle[1]\<close> only when the length is 5; the
  second reads it whatever the length.
\<close>

definition remap :: "string list \<Rightarrow> crn_info \<Rightarrow> error + crn_info" where
  "remap crnTitle info =
     (if length crnTitle = 5 \<and> (case idx crnTitle 1 of None \<Rightarrow> False | Some t1 \<Rightarrow> str_includes t1 ''Lab'')
      then remapLab crnTitle info
      else bindE (defined (idx crnTitle 1)) (\<lambda>t1.
           if str_includes t1 ''Targeted eLipo'' then remapELipo crnTitle info
           else Inr info))"

text \<open>Lines 188 to 190.\<close>

definition setAttributes :: "string \<Rightarrow> crn_info \<Rightarrow> crn_info" where
  "setAttributes text info =
     (case afterLabel ''Attributes: '' text of
        None \<Rightarrow> info
      | Some a \<Rightarrow> info\<lparr>attributes := Some a\<rparr>)"

text \<open>One turn of the loop of line 94: the record pushed and the instructor record pushed, if any.\<close>

definition extractEntry :: "header_link \<Rightarrow> error + (crn_info \<times> instructor_info option)" where
  "extractEntry e =
     (let crnTitle = str_split '' - '' (headerText e) in
      bindE (defined (descriptionElement e)) (\<lambda>d.
      bindE (baseInfo crnTitle d) (\<lambda>(info, ins).
      bindE (remap crnTitle info) (\<lambda>info'.
      Inr (setAttributes (descriptionText d) info', ins)))))"

text \<open>
  The loop. \<^verbatim>\<open>crnInfo.push(info)\<close> runs for every header link, \<^verbatim>\<open>instructorInfo.push\<close> only
  for one with a table. An exception leaves the callback, and \<^verbatim>\<open>$$eval\<close> rejects.
\<close>

fun extractLoop :: "header_link list \<Rightarrow> total_results \<Rightarrow> error + total_results" where
  "extractLoop [] r = Inr r"
| "extractLoop (e # es) r =
     (case extractEntry e of
        Inl err \<Rightarrow> Inl err
      | Inr (info, ins) \<Rightarrow>
          extractLoop es
            \<lparr> crnInfo = crnInfo r @ [info],
              instructorInfo = instructorInfo r @ (case ins of None \<Rightarrow> [] | Some x \<Rightarrow> [x]) \<rparr>)"

definition totalResults :: "header_link list \<Rightarrow> error + total_results" where
  "totalResults doc = extractLoop doc \<lparr> crnInfo = [], instructorInfo = [] \<rparr>"

section \<open>The store\<close>

text \<open>
  The tables that \<^verbatim>\<open>startCrawl\<close> defines (lines 273 to 354), each a list of rows in order
  of insertion; the \<^verbatim>\<open>id\<close> of a row is its position. The four reference tables hold
  the values given to \<^verbatim>\<open>findOrCreate\<close> and the term that inserted them. The short code of a
  subject is a nullable column: \<open>None\<close> is \<^verbatim>\<open>NULL\<close>, which the crawler never writes.
\<close>

record 'a row =
  rowData :: 'a
  firstSeen :: string

record subject_item =
  shortName :: "string option"
  longName :: string

record semester =
  termID :: string
  termName :: string

record store =
  crnsTable :: "(crn_info \<times> string) list"
  instructorsTable :: "instructor_info row list"
  subjectsTable :: "subject_item row list"
  levelsTable :: "string row list"
  attributesTable :: "string row list"
  semestersTable :: "semester list"

definition emptyStore :: store where
  "emptyStore =
     \<lparr> crnsTable = [], instructorsTable = [], subjectsTable = [], levelsTable = [],
       attributesTable = [], semestersTable = [] \<rparr>"

text \<open>
  \<^verbatim>\<open>model.findOrCreate({where: {key: k}, defaults})\<close> of the store (an external
  collaborator; section 4.4 of the specification: a lookup that succeeds writes nothing,
  a miss inserts the defaults). The result is the table afterwards and what the caller
  reads as \<^verbatim>\<open>res[0]._options.isNewRecord\<close>: whether the row was inserted.
\<close>

definition findOrCreate ::
  "('a \<Rightarrow> 'k) \<Rightarrow> 'k \<Rightarrow> 'a row \<Rightarrow> 'a row list \<Rightarrow> 'a row list \<times> bool" where
  "findOrCreate key k defaults tbl =
     (case find (\<lambda>r. key (rowData r) = k) tbl of
        Some r \<Rightarrow> (tbl, False)
      | None \<Rightarrow> (tbl @ [defaults], True))"

text \<open>The counters of line 10.\<close>

record stats =
  newSubjectCount :: nat
  newInstructorCount :: nat
  newLevelCount :: nat
  newAttributeCount :: nat

definition zeroStats :: stats where
  "zeroStats =
     \<lparr> newSubjectCount = 0, newInstructorCount = 0, newLevelCount = 0, newAttributeCount = 0 \<rparr>"

section \<open>SubjectCatalog: the loop of lines 43 to 65\<close>

text \<open>
  The loop runs over the indices of \<^verbatim>\<open>subjectFullName\<close>; \<^verbatim>\<open>subjectShortName[i]\<close> is
  \<^verbatim>\<open>undefined\<close> past the end of the other array, and the store rejects a \<^verbatim>\<open>where\<close> whose
  value is \<^verbatim>\<open>undefined\<close> (Sequelize: the parameter has an invalid \<^verbatim>\<open>undefined\<close> value), so
  \<^verbatim>\<open>findOrCreate\<close> rejects there. With \<^verbatim>\<open>VERBOSE\<close> set, line 61 reads
  \<^verbatim>\<open>subjects[i].shortName\<close> where \<^verbatim>\<open>subjects\<close> is the table's model, not an array:
  \<^verbatim>\<open>subjects[i]\<close> is \<^verbatim>\<open>undefined\<close> and the read throws, after the row was inserted.
\<close>

fun subjectLoop ::
  "bool \<Rightarrow> string \<Rightarrow> string list \<Rightarrow> (nat \<times> string) list \<Rightarrow> store \<times> stats
     \<Rightarrow> store \<times> (error + stats)" where
  "subjectLoop verbose tid subjectShortName [] (db, st) = (db, Inr st)"
| "subjectLoop verbose tid subjectShortName ((i, long) # rest) (db, st) =
     (case idx subjectShortName i of
        None \<Rightarrow> (db, Inl StoreError)
      | Some code \<Rightarrow>
          (case findOrCreate shortName (Some code)
                  \<lparr> rowData = \<lparr> shortName = Some code, longName = long \<rparr>,
                    firstSeen = tid \<rparr>
                  (subjectsTable db) of
             (tbl, True) \<Rightarrow>
               if verbose then (db\<lparr>subjectsTable := tbl\<rparr>, Inl TypeError)
               else subjectLoop verbose tid subjectShortName rest
                      (db\<lparr>subjectsTable := tbl\<rparr>,
                       st\<lparr>newSubjectCount := newSubjectCount st + 1\<rparr>)
           | (tbl, False) \<Rightarrow>
               subjectLoop verbose tid subjectShortName rest (db\<lparr>subjectsTable := tbl\<rparr>, st)))"

section \<open>ReferenceUpserter and CoursePersister: the loop of lines 197 to 267\<close>

text \<open>Lines 199 to 216; \<^verbatim>\<open>instructorInfo[i]\<close> is \<^verbatim>\<open>undefined\<close> past the end of the array.\<close>

definition upsertInstructor ::
  "string \<Rightarrow> instructor_info option \<Rightarrow> store \<times> stats \<Rightarrow> store \<times> stats" where
  "upsertInstructor tid ins s =
     (case ins of
        None \<Rightarrow> s
      | Some x \<Rightarrow>
          (case findOrCreate name (name x) \<lparr> rowData = x, firstSeen = tid \<rparr>
                  (instructorsTable (fst s)) of
             (tbl, new) \<Rightarrow>
               ((fst s)\<lparr>instructorsTable := tbl\<rparr>,
                if new then (snd s)\<lparr>newInstructorCount := newInstructorCount (snd s) + 1\<rparr>
                else snd s)))"

text \<open>Lines 222 to 237, one turn of the loop over \<^verbatim>\<open>attributesArr\<close>.\<close>

definition upsertAttribute :: "string \<Rightarrow> store \<times> stats \<Rightarrow> string \<Rightarrow> store \<times> stats" where
  "upsertAttribute tid s a =
     (case findOrCreate (\<lambda>x. x) a \<lparr> rowData = a, firstSeen = tid \<rparr> (attributesTable (fst s)) of
        (tbl, new) \<Rightarrow>
          ((fst s)\<lparr>attributesTable := tbl\<rparr>,
           if new then (snd s)\<lparr>newAttributeCount := newAttributeCount (snd s) + 1\<rparr>
           else snd s))"

text \<open>
  Lines 244 to 258, one turn of the loop over \<^verbatim>\<open>levelsArr\<close>. Line 257 increments
  \<^verbatim>\<open>newAttributeCount\<close>.
\<close>

definition upsertLevel :: "string \<Rightarrow> store \<times> stats \<Rightarrow> string \<Rightarrow> store \<times> stats" where
  "upsertLevel tid s l =
     (case findOrCreate (\<lambda>x. x) l \<lparr> rowData = l, firstSeen = tid \<rparr> (levelsTable (fst s)) of
        (tbl, new) \<Rightarrow>
          ((fst s)\<lparr>levelsTable := tbl\<rparr>,
           if new then (snd s)\<lparr>newAttributeCount := newAttributeCount (snd s) + 1\<rparr>
           else snd s))"

text \<open>
  \<^verbatim>\<open>if (s) { ... s.split(', ') ... }\<close>: the tokens of a field that is neither \<^verbatim>\<open>null\<close> nor
  empty, and none otherwise.
\<close>

definition tokens :: "string option \<Rightarrow> string list" where
  "tokens v = (case v of None \<Rightarrow> [] | Some s \<Rightarrow> if s = [] then [] else str_split '', '' s)"

text \<open>Lines 198 to 266, the body of the loop for course \<open>i\<close>.\<close>

definition persistStep ::
  "string \<Rightarrow> instructor_info list \<Rightarrow> store \<times> stats \<Rightarrow> nat \<times> crn_info \<Rightarrow> store \<times> stats" where
  "persistStep tid instructorInfos s c =
     (let s1 = upsertInstructor tid (idx instructorInfos (fst c)) s;
          s2 = foldl (upsertAttribute tid) s1 (tokens (attributes (snd c)));
          s3 = foldl (upsertLevel tid) s2 (tokens (levels (snd c)))
      in ((fst s3)\<lparr>crnsTable := crnsTable (fst s3) @ [(snd c, tid)]\<rparr>, snd s3))"

definition persist :: "string \<Rightarrow> total_results \<Rightarrow> store \<times> stats \<Rightarrow> store \<times> stats" where
  "persist tid res s =
     foldl (persistStep tid (instructorInfo res)) s (enumerate 0 (crnInfo res))"

section \<open>\<^verbatim>\<open>crawl\<close> (lines 8 to 270)\<close>

text \<open>
  What the upstream site answers for one term. \<open>None\<close> for the term: a wait or a click
  of lines 13 to 33 fails. \<open>listing = None\<close>: one of lines 71 to 85 fails.
\<close>

record term_page =
  subjectFullName :: "string list"
  subjectShortName :: "string list"
  listing :: "header_link list option"

text \<open>The line that \<^verbatim>\<open>crawl\<close> logs last (line 269).\<close>

record report =
  insertedCRNs :: nat
  newSubjects :: nat
  newInstructors :: nat
  newAttributes :: nat
  newLevels :: nat

definition reportOf :: "total_results \<Rightarrow> stats \<Rightarrow> report" where
  "reportOf res st =
     \<lparr> insertedCRNs = length (crnInfo res),
       newSubjects = newSubjectCount st,
       newInstructors = newInstructorCount st,
       newAttributes = newAttributeCount st,
       newLevels = newLevelCount st \<rparr>"

text \<open>
  The result is the store when \<^verbatim>\<open>crawl\<close> settles, and the exception it rejects with or
  the report it logs.
\<close>

definition crawl :: "bool \<Rightarrow> string \<Rightarrow> term_page option \<Rightarrow> store \<Rightarrow> store \<times> (error + report)" where
  "crawl verbose tid page db =
     (case page of
        None \<Rightarrow> (db, Inl TimeoutError)
      | Some p \<Rightarrow>
          (case subjectLoop verbose tid (subjectShortName p) (enumerate 0 (subjectFullName p))
                  (db, zeroStats) of
             (db1, Inl err) \<Rightarrow> (db1, Inl err)
           | (db1, Inr st1) \<Rightarrow>
               (case listing p of
                  None \<Rightarrow> (db1, Inl TimeoutError)
                | Some doc \<Rightarrow>
                    (case totalResults doc of
                       Inl err \<Rightarrow> (db1, Inl err)
                     | Inr res \<Rightarrow>
                         (case persist tid res (db1, st1) of
                            (db2, st2) \<Rightarrow> (db2, Inr (reportOf res st2)))))))"

section \<open>\<^verbatim>\<open>startCrawl\<close> (lines 272 to 413)\<close>

text \<open>
  Lines 381 to 392: the terms, from the \<^verbatim>\<open>value\<close> and \<^verbatim>\<open>innerText\<close> of the options. The
  comparison of \<^verbatim>\<open>sort\<close> is that of strings by code units; the sort is stable.
\<close>

definition discoverTerms :: "(string \<times> string) list \<Rightarrow> semester list" where
  "discoverTerms opts =
     sort_key termID
       (map (\<lambda>opt. \<lparr> termID = fst opt, termName = str_replace '' (View only)'' [] (snd opt) \<rparr>)
          (filter (\<lambda>opt. snd opt \<noteq> ''None'') opts))"

text \<open>
  Lines 398 to 403. The handler of \<^verbatim>\<open>catch\<close> throws the error again, so the first term
  whose \<^verbatim>\<open>crawl\<close> rejects ends the loop. The result: the store, the reports logged, and
  the error, if any.
\<close>

fun crawlTerms ::
  "bool \<Rightarrow> (string \<Rightarrow> term_page option) \<Rightarrow> semester list \<Rightarrow> store
     \<Rightarrow> store \<times> report list \<times> error option" where
  "crawlTerms verbose upstream [] db = (db, [], None)"
| "crawlTerms verbose upstream (t # ts) db =
     (case crawl verbose (termID t) (upstream (termID t)) db of
        (db1, Inl err) \<Rightarrow> (db1, [], Some err)
      | (db1, Inr rep) \<Rightarrow>
          (case crawlTerms verbose upstream ts db1 of
             (db2, reps, outcome) \<Rightarrow> (db2, rep # reps, outcome)))"

text \<open>
  The run: the tables are created anew (line 357), the wait of line 374 needs an option
  of value \<^verbatim>\<open>200520\<close>, the terms are inserted (line 394) and crawled. The last component is
  the exit code: 0 from line 406, 1 from the handler of lines 409 to 413.
\<close>

definition startCrawl ::
  "bool \<Rightarrow> (string \<times> string) list \<Rightarrow> (string \<Rightarrow> term_page option)
     \<Rightarrow> store \<times> report list \<times> nat" where
  "startCrawl verbose opts upstream =
     (if ''200520'' \<notin> set (map fst opts) then (emptyStore, [], 1)
      else
        (let terms = discoverTerms opts in
         case crawlTerms verbose upstream terms (emptyStore\<lparr>semestersTable := terms\<rparr>) of
           (db, reps, None) \<Rightarrow> (db, reps, 0)
         | (db, reps, Some err) \<Rightarrow> (db, reps, 1)))"

section \<open>Sample pages\<close>

text \<open>
  The listing of section 8 of the specification: \<^verbatim>\<open>Intro to Robotics\<close>, meeting on \<^verbatim>\<open>MW\<close>.
\<close>

definition roboticsText :: string where
  "roboticsText =
     ''Associated Term: Fall 2019\<newline>Levels: Undergraduate, Graduate\<newline>Lecture Schedule Type\<newline>    3.000 Credits''"

definition roboticsTable :: class_table where
  "roboticsTable =
     \<lparr> tds = [''Class'', ''9:00 am - 9:50 am'', ''MW'', ''Y'', ''ESB 1001'',
              ''Aug 25, 2019 - Dec 19, 2019'', ''Lecture'', ''Jane Doe (P)''],
       tdLink = Some ''mailto:jdoe@aus.edu'' \<rparr>"

definition roboticsDetail :: description_element where
  "roboticsDetail = \<lparr> descriptionText = roboticsText, classTable = Some roboticsTable \<rparr>"

definition robotics :: header_link where
  "robotics =
     \<lparr> headerText = ''Intro to Robotics - 12345 - COE 201 - 1'',
       descriptionElement = Some roboticsDetail \<rparr>"

definition roboticsInfo :: crn_info where
  "roboticsInfo =
     \<lparr> crn = Some ''12345'', subject = Some ''COE'', classTitle = Some ''Intro to Robotics'',
       classShortName = Some ''COE 201'', classNumber = Some ''201'', classSection = Some ''1'',
       classType = Some ''Lecture'', isLab = Some False, instructor = Some ''Jane Doe '',
       startTime = Some (DateToString ''0, 9:00 am''),
       endTime = Some (DateToString ''0, 9:50 am''),
       isSunday = False, isMonday = True, isTuesday = False, isWednesday = False,
       isThursday = False, levels = Some ''Undergraduate, Graduate'', attributes = None,
       scheduleType = Some ''Lecture'', credits = Some (Finite 3), classroom = Some ''ESB 1001'',
       seatsAvailable = Some True \<rparr>"

definition janeDoe :: instructor_info where
  "janeDoe = \<lparr> name = ''Jane Doe'', email = ''jdoe@aus.edu'' \<rparr>"

text \<open>A detail block with no table.\<close>

definition placeholderDetail :: description_element where
  "placeholderDetail = \<lparr> descriptionText = roboticsText, classTable = None \<rparr>"

text \<open>A lab line of five tokens, and a line of four tokens that names \<^verbatim>\<open>Targeted eLipo\<close>.\<close>

definition labTable :: class_table where
  "labTable =
     \<lparr> tds = [''Class'', ''2:00 pm - 4:50 pm'', ''T'', ''N'', ''NAB 007'',
              ''Aug 25, 2019 - Dec 19, 2019'', ''Lab'', ''TBA''],
       tdLink = None \<rparr>"

definition labDetail :: description_element where
  "labDetail = \<lparr> descriptionText = roboticsText, classTable = Some labTable \<rparr>"

definition tba :: instructor_info where
  "tba = \<lparr> name = ''TBA'', email = ''none'' \<rparr>"

definition calculusLab :: header_link where
  "calculusLab =
     \<lparr> headerText = ''Calculus I - Lab - 10234 - MTH 103 - 2'',
       descriptionElement = Some labDetail \<rparr>"

definition eLipoFour :: header_link where
  "eLipoFour =
     \<lparr> headerText = ''Special Topics - Targeted eLipo - 21345 - BIO 494'',
       descriptionElement = Some placeholderDetail \<rparr>"

definition eLipoFourRecord :: crn_info where
  "eLipoFourRecord =
     \<lparr> crn = Some ''21345'', subject = Some ''BIO'',
       classTitle = Some ''Special Topics Targeted eLipo'', classShortName = Some ''BIO 494'',
       classNumber = Some ''494'', classSection = None,
       classType = None, isLab = None, instructor = None, startTime = None, endTime = None,
       isSunday = False, isMonday = False, isTuesday = False, isWednesday = False,
       isThursday = False, levels = Some ''Undergraduate, Graduate'', attributes = None,
       scheduleType = Some ''Lecture'', credits = Some (Finite 3), classroom = None,
       seatsAvailable = None \<rparr>"

text \<open>A placeholder listing: no table in the detail block.\<close>

definition placeholder :: header_link where
  "placeholder =
     \<lparr> headerText = ''Senior Design Project - 13579 - COE 491 - 3'',
       descriptionElement = Some placeholderDetail \<rparr>"

definition placeholderRecord :: crn_info where
  "placeholderRecord =
     \<lparr> crn = Some ''13579'', subject = Some ''COE'', classTitle = Some ''Senior Design Project'',
       classShortName = Some ''COE 491'', classNumber = Some ''491'', classSection = Some ''3'',
       classType = None, isLab = None, instructor = None, startTime = None, endTime = None,
       isSunday = False, isMonday = False, isTuesday = False, isWednesday = False,
       isThursday = False, levels = Some ''Undergraduate, Graduate'', attributes = None,
       scheduleType = Some ''Lecture'', credits = Some (Finite 3), classroom = None,
       seatsAvailable = None \<rparr>"

text \<open>A detail text with no \<^verbatim>\<open>Levels: \<close> label, and a listing that has it and the sample table.\<close>

definition noLevelsText :: string where
  "noLevelsText = ''Associated Term: Fall 2019\<newline>Lecture Schedule Type\<newline>    3.000 Credits''"

definition noLevels :: header_link where
  "noLevels =
     \<lparr> headerText = ''Intro to Robotics - 12345 - COE 201 - 1'',
       descriptionElement =
         Some \<lparr> descriptionText = noLevelsText, classTable = Some roboticsTable \<rparr> \<rparr>"

text \<open>A placeholder listing with the same header as \<open>placeholder\<close> and no \<^verbatim>\<open>Levels: \<close> label.\<close>

definition barePlaceholder :: header_link where
  "barePlaceholder =
     \<lparr> headerText = ''Senior Design Project - 13579 - COE 491 - 3'',
       descriptionElement = Some \<lparr> descriptionText = noLevelsText, classTable = None \<rparr> \<rparr>"

text \<open>A term whose page lists two subjects and the sample listing.\<close>

definition samplePage :: term_page where
  "samplePage =
     \<lparr> subjectFullName = [''All Subjects'', ''Computer Engineering''],
       subjectShortName = [''%'', ''COE''],
       listing = Some [robotics] \<rparr>"

section \<open>Notions used to state the properties\<close>

text \<open>Every table of the first store is an initial part of the same table of the second.\<close>

definition storeExtends :: "store \<Rightarrow> store \<Rightarrow> bool" where
  "storeExtends db db' =
     (prefix (crnsTable db) (crnsTable db') \<and>
      prefix (instructorsTable db) (instructorsTable db') \<and>
      prefix (subjectsTable db) (subjectsTable db') \<and>
      prefix (levelsTable db) (levelsTable db') \<and>
      prefix (attributesTable db) (attributesTable db') \<and>
      prefix (semestersTable db) (semestersTable db'))"

text \<open>
  The short codes that the loop of lines 43 to 65 looks up for a page, in order (\<open>None\<close>
  for \<^verbatim>\<open>undefined\<close>).
\<close>

definition observedSubjects :: "term_page \<Rightarrow> string option list" where
  "observedSubjects p =
     map (\<lambda>c. idx (subjectShortName p) (fst c)) (enumerate 0 (subjectFullName p))"

text \<open>The natural keys that the four reference tables hold.\<close>

definition subjectCodes :: "store \<Rightarrow> string option set" where
  "subjectCodes db = (\<lambda>r. shortName (rowData r)) ` set (subjectsTable db)"

definition instructorNames :: "store \<Rightarrow> string set" where
  "instructorNames db = (\<lambda>r. name (rowData r)) ` set (instructorsTable db)"

definition attributeTexts :: "store \<Rightarrow> string set" where
  "attributeTexts db = rowData ` set (attributesTable db)"

definition levelTexts :: "store \<Rightarrow> string set" where
  "levelTexts db = rowData ` set (levelsTable db)"

text \<open>
  The keys that the body of the loop of line 197 looks up for course \<open>i\<close>: the name of
  \<^verbatim>\<open>instructorInfo[i]\<close> if there is one, the attribute tokens and the level tokens.
\<close>

definition instructorKeys :: "instructor_info list \<Rightarrow> nat \<times> crn_info \<Rightarrow> string set" where
  "instructorKeys instructorInfos c =
     (case idx instructorInfos (fst c) of None \<Rightarrow> {} | Some x \<Rightarrow> {name x})"

definition attributeKeys :: "nat \<times> crn_info \<Rightarrow> string set" where
  "attributeKeys c = set (tokens (attributes (snd c)))"

definition levelKeys :: "nat \<times> crn_info \<Rightarrow> string set" where
  "levelKeys c = set (tokens (levels (snd c)))"

section \<open>Sample runs\<close>

text \<open>
  The options of two terms, and an upstream site where only the page of the later term
  loads.
\<close>

definition twoTerms :: "(string \<times> string) list" where
  "twoTerms = [(''201910'', ''Fall 2019''), (''200520'', ''Fall 2005 (View only)'')]"

definition fall2005 :: semester where
  "fall2005 = \<lparr> termID = ''200520'', termName = ''Fall 2005'' \<rparr>"

definition fall2019Term :: semester where
  "fall2019Term = \<lparr> termID = ''201910'', termName = ''Fall 2019'' \<rparr>"

definition laterOnly :: "string \<Rightarrow> term_page option" where
  "laterOnly tid = (if tid = ''201910'' then Some samplePage else None)"

text \<open>
  An upstream site where the page of the earlier term loads, and that of the later term
  lists a subject but its listing does not load.
\<close>

definition noListing :: term_page where
  "noListing =
     \<lparr> subjectFullName = [''Mathematics''], subjectShortName = [''MTH''], listing = None \<rparr>"

definition listingFailsLater :: "string \<Rightarrow> term_page option" where
  "listingFailsLater tid = (if tid = ''200520'' then Some samplePage else Some noListing)"

text \<open>The store after the sample page was crawled as term \<^verbatim>\<open>200520\<close>, and the report.\<close>

definition afterFirstTerm :: store where
  "afterFirstTerm =
     \<lparr> crnsTable = [(roboticsInfo, ''200520'')],
       instructorsTable = [\<lparr> rowData = janeDoe, firstSeen = ''200520'' \<rparr>],
       subjectsTable =
         [\<lparr> rowData = \<lparr> shortName = Some ''%'', longName = ''All Subjects'' \<rparr>,
            firstSeen = ''200520'' \<rparr>,
          \<lparr> rowData = \<lparr> shortName = Some ''COE'', longName = ''Computer Engineering'' \<rparr>,
            firstSeen = ''200520'' \<rparr>],
       levelsTable =
         [\<lparr> rowData = ''Undergraduate'', firstSeen = ''200520'' \<rparr>,
          \<lparr> rowData = ''Graduate'', firstSeen = ''200520'' \<rparr>],
       attributesTable = [],
       semestersTable = [fall2005, fall2019Term] \<rparr>"

text \<open>The store after the subject loop of the later term, whose listing does not load.\<close>

definition afterFailure :: store where
  "afterFailure =
     afterFirstTerm\<lparr>subjectsTable := subjectsTable afterFirstTerm @
       [\<lparr> rowData = \<lparr> shortName = Some ''MTH'', longName = ''Mathematics'' \<rparr>,
          firstSeen = ''201910'' \<rparr>]\<rparr>"

definition firstReport :: report where
  "firstReport =
     \<lparr> insertedCRNs = 1, newSubjects = 2, newInstructors = 1, newAttributes = 2,
       newLevels = 0 \<rparr>"

text \<open>
  The same store before the terms are inserted, a page of a later term on which the
  long name of \<^verbatim>\<open>COE\<close> has changed, and the store and report after that page was crawled
  as term \<^verbatim>\<open>201910\<close>.
\<close>

definition afterFirstCrawl :: store where
  "afterFirstCrawl = afterFirstTerm\<lparr>semestersTable := []\<rparr>"

definition renamedPage :: term_page where
  "renamedPage =
     \<lparr> subjectFullName = [''All Subjects'', ''Computer Science and Engineering''],
       subjectShortName = [''%'', ''COE''],
       listing = Some [robotics] \<rparr>"

definition afterSecondCrawl :: store where
  "afterSecondCrawl =
     afterFirstCrawl\<lparr>crnsTable := [(roboticsInfo, ''200520''), (roboticsInfo, ''201910'')]\<rparr>"

definition secondReport :: report where
  "secondReport =
     \<lparr> insertedCRNs = 1, newSubjects = 0, newInstructors = 0, newAttributes = 0,
       newLevels = 0 \<rparr>"

definition coeRow :: "subject_item row" where
  "coeRow =
     \<lparr> rowData = \<lparr> shortName = Some ''COE'', longName = ''Computer Engineering'' \<rparr>,
       firstSeen = ''200520'' \<rparr>"

section \<open>Basic facts\<close>

lemma bindE_Inl [simp]: "bindE (Inl e) f = Inl e"
  by (simp add: bindE_def)

lemma bindE_Inr [simp]: "bindE (Inr x) f = f x"
  by (simp add: bindE_def)

lemma defined_Some [simp]: "defined (Some x) = Inr x"
  by (simp add: defined_def)

lemma defined_None [simp]: "defined None = Inl TypeError"
  by (simp add: defined_def)

lemma bindE_eq_Inr: "bindE m f = Inr y \<longleftrightarrow> (\<exists>x. m = Inr x \<and> f x = Inr y)"
  by (cases m) simp_all

lemma defined_eq_Inr: "defined v = Inr x \<longleftrightarrow> v = Some x"
  by (cases v) simp_all

lemma robotics_extracted: "extractEntry robotics = Inr (roboticsInfo, Some janeDoe)"
  by code_simp

section \<open>The day flags\<close>

lemma remapELipo_eq: "remapELipo T info = remapLab T info"
  by (simp add: remapELipo_def remapLab_def)

lemma remapLab_days:
  "remapLab T info = Inr info' \<Longrightarrow>
     isSunday info' = isSunday info \<and> isMonday info' = isMonday info \<and>
     isTuesday info' = isTuesday info \<and> isWednesday info' = isWednesday info \<and>
     isThursday info' = isThursday info"
  by (auto simp: remapLab_def bindE_eq_Inr)

lemma remap_days:
  "remap T info = Inr info' \<Longrightarrow>
     isSunday info' = isSunday info \<and> isMonday info' = isMonday info \<and>
     isTuesday info' = isTuesday info \<and> isWednesday info' = isWednesday info \<and>
     isThursday info' = isThursday info"
  unfolding remap_def remapELipo_eq
  by (auto simp: bindE_eq_Inr split: if_splits dest: remapLab_days)

lemma setAttributes_days:
  "isSunday (setAttributes text info) = isSunday info \<and>
   isMonday (setAttributes text info) = isMonday info \<and>
   isTuesday (setAttributes text info) = isTuesday info \<and>
   isWednesday (setAttributes text info) = isWednesday info \<and>
   isThursday (setAttributes text info) = isThursday info"
  by (simp add: setAttributes_def split: option.split)

lemma tableInfo_days:
  "tableInfo T text t = Inr info \<Longrightarrow>
     \<not> isSunday info \<and> \<not> isMonday info \<and> \<not> isTuesday info \<and> \<not> isWednesday info \<and>
     \<not> isThursday info"
  by (auto simp: tableInfo_def bindE_eq_Inr)

lemma setDays_flags:
  assumes "\<not> isSunday info" "\<not> isMonday info" "\<not> isTuesday info" "\<not> isWednesday info"
    "\<not> isThursday info"
  shows "isSunday (setDays days info) = str_includes days ''U''"
    and "isMonday (setDays days info) = (\<not> str_includes days ''U'' \<and> str_includes days ''M'')"
    and "isTuesday (setDays days info) =
           (\<not> str_includes days ''U'' \<and> \<not> str_includes days ''M'' \<and> str_includes days ''T'')"
    and "isWednesday (setDays days info) =
           (\<not> str_includes days ''U'' \<and> \<not> str_includes days ''M'' \<and> \<not> str_includes days ''T'' \<and>
            str_includes days ''W'')"
    and "isThursday (setDays days info) =
           (\<not> str_includes days ''U'' \<and> \<not> str_includes days ''M'' \<and> \<not> str_includes days ''T'' \<and>
            \<not> str_includes days ''W'' \<and> str_includes days ''R'')"
  using assms by (simp_all add: setDays_def)

text \<open>
  C2. Whenever a header link whose detail block has a table is extracted, the table has
  a cell 2 (the meeting days), and the five day flags of the record are decided by the
  first of the letters U, M, T, W, R (in that order) that the cell contains: Sunday is set
  exactly when it contains U, Monday exactly when it contains M and no U, and so on; so
  at most one flag is true, whatever other days the text names.
\<close>

theorem day_flags_first_match:
  assumes ex: "extractEntry e = Inr (info, ins)"
    and d: "descriptionElement e = Some d"
    and t: "classTable d = Some t"
  shows "\<exists>days. idx (tds t) 2 = Some days \<and>
           isSunday info = str_includes days ''U'' \<and>
           isMonday info = (\<not> str_includes days ''U'' \<and> str_includes days ''M'') \<and>
           isTuesday info =
             (\<not> str_includes days ''U'' \<and> \<not> str_includes days ''M'' \<and> str_includes days ''T'') \<and>
           isWednesday info =
             (\<not> str_includes days ''U'' \<and> \<not> str_includes days ''M'' \<and>
              \<not> str_includes days ''T'' \<and> str_includes days ''W'') \<and>
           isThursday info =
             (\<not> str_includes days ''U'' \<and> \<not> str_includes days ''M'' \<and>
              \<not> str_includes days ''T'' \<and> \<not> str_includes days ''W'' \<and> str_includes days ''R'') \<and>
           length (filter (\<lambda>b. b)
             [isSunday info, isMonday info, isTuesday info, isWednesday info, isThursday info]) \<le> 1"
proof -
  let ?T = "str_split '' - '' (headerText e)"
  from ex d obtain info0 info1 where
    base: "baseInfo ?T d = Inr (info0, ins)" and
    rm: "remap ?T info0 = Inr info1" and
    info: "info = setAttributes (descriptionText d) info1"
    by (auto simp: extractEntry_def Let_def bindE_eq_Inr)
  from base t obtain info00 days where
    ti: "tableInfo ?T (descriptionText d) t = Inr info00" and
    days: "idx (tds t) 2 = Some days" and
    info0: "info0 = setDays days info00"
    by (auto simp: baseInfo_def bindE_eq_Inr defined_eq_Inr)
  note z = tableInfo_days [OF ti]
  note f = setDays_flags [of info00 days]
  have same: "isSunday info = isSunday info0" "isMonday info = isMonday info0"
    "isTuesday info = isTuesday info0" "isWednesday info = isWednesday info0"
    "isThursday info = isThursday info0"
    using remap_days [OF rm] setAttributes_days [of "descriptionText d" info1] info by simp_all
  have flags: "isSunday info = str_includes days ''U''"
    "isMonday info = (\<not> str_includes days ''U'' \<and> str_includes days ''M'')"
    "isTuesday info =
       (\<not> str_includes days ''U'' \<and> \<not> str_includes days ''M'' \<and> str_includes days ''T'')"
    "isWednesday info =
       (\<not> str_includes days ''U'' \<and> \<not> str_includes days ''M'' \<and>
        \<not> str_includes days ''T'' \<and> str_includes days ''W'')"
    "isThursday info =
       (\<not> str_includes days ''U'' \<and> \<not> str_includes days ''M'' \<and>
        \<not> str_includes days ''T'' \<and> \<not> str_includes days ''W'' \<and> str_includes days ''R'')"
    using same f z info0 by simp_all
  have one: "length (filter (\<lambda>b. b)
      [isSunday info, isMonday info, isTuesday info, isWednesday info, isThursday info]) \<le> 1"
    unfolding flags by simp
  show ?thesis using days flags one by blast
qed

text \<open>
  The listing of section 8 meets on \<^verbatim>\<open>MW\<close>: Monday is set and Wednesday is not.
\<close>

theorem day_flags_first_match_witness:
  "extractEntry robotics = Inr (roboticsInfo, Some janeDoe) \<and>
   idx (tds roboticsTable) 2 = Some ''MW'' \<and>
   isMonday roboticsInfo \<and> \<not> isWednesday roboticsInfo \<and>
   length (filter (\<lambda>b. b)
     [isSunday roboticsInfo, isMonday roboticsInfo, isTuesday roboticsInfo,
      isWednesday roboticsInfo, isThursday roboticsInfo]) \<le> 1"
proof -
  have d: "descriptionElement robotics = Some roboticsDetail"
    by (simp add: robotics_def)
  have t: "classTable roboticsDetail = Some roboticsTable"
    by (simp add: roboticsDetail_def)
  have days: "idx (tds roboticsTable) 2 = Some ''MW''"
    by (simp add: roboticsTable_def idx_def)
  from day_flags_first_match [OF robotics_extracted d t] days
  have "isMonday roboticsInfo = (\<not> str_includes ''MW'' ''U'' \<and> str_includes ''MW'' ''M'')"
    and "isWednesday roboticsInfo =
      (\<not> str_includes ''MW'' ''U'' \<and> \<not> str_includes ''MW'' ''M'' \<and>
       \<not> str_includes ''MW'' ''T'' \<and> str_includes ''MW'' ''W'')"
    and "length (filter (\<lambda>b. b)
     [isSunday roboticsInfo, isMonday roboticsInfo, isTuesday roboticsInfo,
      isWednesday roboticsInfo, isThursday roboticsInfo]) \<le> 1"
    by auto
  then show ?thesis using robotics_extracted days by simp
qed

section \<open>The header line\<close>

text \<open>
  C4. Take a header line of five tokens \<open>t0, ..., t4\<close> whose second token contains \<^verbatim>\<open>Lab\<close> or
  \<^verbatim>\<open>Targeted eLipo\<close>, and for which the record of lines 100 to 169 was built without an
  exception. Then the extraction of the line succeeds, and the record has crn \<open>t2\<close>, subject
  and course number the first and second piece of \<open>t3\<close> split at a space, title \<open>t0\<close>, a
  space, \<open>t1\<close>, short name \<open>t3\<close> and section \<open>t4\<close>; the assignments of the two branches
  (lines 173 to 178 and 180 to 185) give the same record.
\<close>

theorem remap_five_tokens:
  assumes d: "descriptionElement e = Some d"
    and T: "str_split '' - '' (headerText e) = [t0, t1, t2, t3, t4]"
    and trig: "str_includes t1 ''Lab'' \<or> str_includes t1 ''Targeted eLipo''"
    and base: "baseInfo [t0, t1, t2, t3, t4] d = Inr (info0, ins)"
  shows "\<exists>info. extractEntry e = Inr (info, ins) \<and>
           crn info = Some t2 \<and>
           subject info = idx (str_split '' '' t3) 0 \<and>
           classNumber info = idx (str_split '' '' t3) 1 \<and>
           classTitle info = Some (t0 @ '' '' @ t1) \<and>
           classShortName info = Some t3 \<and>
           classSection info = Some t4 \<and>
           remapLab [t0, t1, t2, t3, t4] info0 = remapELipo [t0, t1, t2, t3, t4] info0"
proof -
  let ?T = "[t0, t1, t2, t3, t4]"
  let ?r = "info0\<lparr> crn := Some t2, subject := idx (str_split '' '' t3) 0,
                   classNumber := idx (str_split '' '' t3) 1,
                   classTitle := Some (t0 @ '' '' @ t1),
                   classShortName := Some t3, classSection := Some t4 \<rparr>"
  have lab: "remapLab ?T info0 = Inr ?r"
    by (simp add: remapLab_def idx_def templateStr_def)
  have elipo: "remapELipo ?T info0 = Inr ?r"
    by (simp add: remapELipo_def idx_def templateStr_def)
  have rm: "remap ?T info0 = Inr ?r"
    using trig lab elipo by (auto simp: remap_def idx_def)
  have "extractEntry e = Inr (setAttributes (descriptionText d) ?r, ins)"
    using d T base rm by (simp add: extractEntry_def)
  moreover have "crn (setAttributes (descriptionText d) ?r) = Some t2"
    "subject (setAttributes (descriptionText d) ?r) = idx (str_split '' '' t3) 0"
    "classNumber (setAttributes (descriptionText d) ?r) = idx (str_split '' '' t3) 1"
    "classTitle (setAttributes (descriptionText d) ?r) = Some (t0 @ '' '' @ t1)"
    "classShortName (setAttributes (descriptionText d) ?r) = Some t3"
    "classSection (setAttributes (descriptionText d) ?r) = Some t4"
    by (simp_all add: setAttributes_def split: option.split)
  ultimately show ?thesis using lab elipo by simp
qed

lemma calculusLab_tokens:
  "str_split '' - '' (headerText calculusLab) =
     [''Calculus I'', ''Lab'', ''10234'', ''MTH 103'', ''2'']"
  by code_simp

lemma calculusLab_base:
  "map_sum (\<lambda>e. e) snd (baseInfo [''Calculus I'', ''Lab'', ''10234'', ''MTH 103'', ''2''] labDetail)
     = Inr (Some tba)"
  by code_simp

lemma mth_tokens: "str_split '' '' ''MTH 103'' = [''MTH'', ''103'']"
  by code_simp

text \<open>The lab line \<^verbatim>\<open>Calculus I - Lab - 10234 - MTH 103 - 2\<close>.\<close>

theorem remap_five_tokens_witness:
  "str_split '' - '' (headerText calculusLab) =
     [''Calculus I'', ''Lab'', ''10234'', ''MTH 103'', ''2''] \<and>
   str_includes ''Lab'' ''Lab'' \<and>
   (\<exists>info. extractEntry calculusLab = Inr (info, Some tba) \<and>
      crn info = Some ''10234'' \<and> subject info = Some ''MTH'' \<and>
      classNumber info = Some ''103'' \<and> classTitle info = Some ''Calculus I Lab'' \<and>
      classShortName info = Some ''MTH 103'' \<and> classSection info = Some ''2'')"
proof -
  have d: "descriptionElement calculusLab = Some labDetail"
    by (simp add: calculusLab_def)
  have trig: "str_includes ''Lab'' ''Lab'' \<or> str_includes ''Lab'' ''Targeted eLipo''"
    by simp
  obtain info0 where
    base: "baseInfo [''Calculus I'', ''Lab'', ''10234'', ''MTH 103'', ''2''] labDetail =
             Inr (info0, Some tba)"
    using calculusLab_base
    by (cases "baseInfo [''Calculus I'', ''Lab'', ''10234'', ''MTH 103'', ''2''] labDetail") auto
  from remap_five_tokens [OF d calculusLab_tokens trig base]
  obtain info where "extractEntry calculusLab = Inr (info, Some tba)"
    and "crn info = Some ''10234''"
    and "subject info = idx (str_split '' '' ''MTH 103'') 0"
    and "classNumber info = idx (str_split '' '' ''MTH 103'') 1"
    and "classTitle info = Some (''Calculus I'' @ '' '' @ ''Lab'')"
    and "classShortName info = Some ''MTH 103''"
    and "classSection info = Some ''2''"
    by blast
  then show ?thesis using calculusLab_tokens by (auto simp: mth_tokens idx_def)
qed

text \<open>
  C5. The header \<^verbatim>\<open>Special Topics - Targeted eLipo - 21345 - BIO 494\<close> has four tokens. The
  second test of line 179 does not look at the length, so the assignments of lines 180 to
  185 run: the crn is the third token, not the second, and the section is
  \<^verbatim>\<open>crnTitle[4]\<close>, which is \<^verbatim>\<open>undefined\<close>.
\<close>

theorem four_tokens_remapped:
  "str_split '' - '' (headerText eLipoFour) =
     [''Special Topics'', ''Targeted eLipo'', ''21345'', ''BIO 494''] \<and>
   extractEntry eLipoFour = Inr (eLipoFourRecord, None) \<and>
   crn eLipoFourRecord = Some ''21345'' \<and>
   classTitle eLipoFourRecord = Some ''Special Topics Targeted eLipo'' \<and>
   classSection eLipoFourRecord = None"
  by code_simp

section \<open>The free text of the detail block\<close>

text \<open>
  C6. The placeholder listing \<open>barePlaceholder\<close> has a header line of four tokens, no
  table, and a free text with no \<^verbatim>\<open>Levels: \<close> label: \<^verbatim>\<open>match\<close> returns \<^verbatim>\<open>null\<close> on line
  118, reading its element 0 throws, and no record is made. With the label in the text,
  the same header yields the record, with no instructor record.
\<close>

theorem placeholder_without_levels_throws:
  "descriptionElement barePlaceholder =
     Some \<lparr> descriptionText = noLevelsText, classTable = None \<rparr> \<and>
   str_split '' - '' (headerText barePlaceholder) =
     [''Senior Design Project'', ''13579'', ''COE 491'', ''3''] \<and>
   afterLabel ''Levels: '' noLevelsText = None \<and>
   extractEntry barePlaceholder = Inl TypeError \<and>
   headerText placeholder = headerText barePlaceholder \<and>
   extractEntry placeholder = Inr (placeholderRecord, None)"
  by code_simp

text \<open>
  C7. The detail text \<open>noLevelsText\<close> has no \<^verbatim>\<open>Levels: \<close> label: \<^verbatim>\<open>match\<close> returns \<^verbatim>\<open>null\<close>,
  reading its element 0 throws before \<^verbatim>\<open>|| null\<close> is reached, and the exception ends the
  extraction of the whole page, the well-formed listing before it included.
\<close>

theorem missing_levels_label_throws:
  "afterLabel ''Levels: '' noLevelsText = None \<and>
   extractEntry noLevels = Inl TypeError \<and>
   totalResults [robotics, noLevels] = Inl TypeError"
  by code_simp

section \<open>The two sequences of the result\<close>

text \<open>
  C1. A page with a placeholder listing followed by a listing with a table: two course
  records and one instructor record, which stands at index 0, the index of the
  placeholder; at index 1, the index of its course, there is none.
\<close>

theorem instructor_sequence_not_parallel:
  "totalResults [placeholder, robotics] =
     Inr \<lparr> crnInfo = [placeholderRecord, roboticsInfo], instructorInfo = [janeDoe] \<rparr> \<and>
   idx [janeDoe] 0 = Some janeDoe \<and> idx [janeDoe] 1 = None"
  by code_simp

section \<open>The reference tables\<close>

lemma findOrCreate_hit:
  "k \<in> (\<lambda>r. key (rowData r)) ` set tbl \<Longrightarrow> findOrCreate key k d tbl = (tbl, False)"
  by (auto simp: findOrCreate_def find_None_iff split: option.split)

lemma findOrCreate_miss:
  "k \<notin> (\<lambda>r. key (rowData r)) ` set tbl \<Longrightarrow> findOrCreate key k d tbl = (tbl @ [d], True)"
  by (auto simp: findOrCreate_def find_None_iff split: option.split)

lemma findOrCreate_keys:
  "key (rowData d) = k \<Longrightarrow>
     (\<lambda>r. key (rowData r)) ` set (fst (findOrCreate key k d tbl)) =
       insert k ((\<lambda>r. key (rowData r)) ` set tbl)"
  by (cases "k \<in> (\<lambda>r. key (rowData r)) ` set tbl")
     (auto simp: findOrCreate_hit findOrCreate_miss)

subsection \<open>Instructors\<close>

lemma upsertInstructor_known:
  "(case ins of None \<Rightarrow> {} | Some x \<Rightarrow> {name x}) \<subseteq> instructorNames (fst s) \<Longrightarrow>
     upsertInstructor tid ins s = s"
  by (cases ins) (auto simp: upsertInstructor_def instructorNames_def findOrCreate_hit)

lemma upsertInstructor_names:
  "instructorNames (fst (upsertInstructor tid ins s)) =
     instructorNames (fst s) \<union> (case ins of None \<Rightarrow> {} | Some x \<Rightarrow> {name x})"
proof (cases ins)
  case None
  then show ?thesis by (simp add: upsertInstructor_def)
next
  case (Some x)
  let ?f = "findOrCreate name (name x) \<lparr> rowData = x, firstSeen = tid \<rparr> (instructorsTable (fst s))"
  have "instructorsTable (fst (upsertInstructor tid ins s)) = fst ?f"
    using Some by (simp add: upsertInstructor_def split: prod.split)
  then show ?thesis
    using Some findOrCreate_keys [of name "\<lparr> rowData = x, firstSeen = tid \<rparr>" "name x"
        "instructorsTable (fst s)"]
    by (simp add: instructorNames_def)
qed

lemma upsertInstructor_others:
  "attributesTable (fst (upsertInstructor tid ins s)) = attributesTable (fst s)"
  "levelsTable (fst (upsertInstructor tid ins s)) = levelsTable (fst s)"
  "subjectsTable (fst (upsertInstructor tid ins s)) = subjectsTable (fst s)"
  by (simp_all add: upsertInstructor_def split: option.split prod.split)

subsection \<open>Attributes\<close>

lemma upsertAttribute_known:
  "a \<in> attributeTexts (fst s) \<Longrightarrow> upsertAttribute tid s a = s"
  by (simp add: upsertAttribute_def attributeTexts_def findOrCreate_hit)

lemma upsertAttribute_texts:
  "attributeTexts (fst (upsertAttribute tid s a)) = insert a (attributeTexts (fst s))"
proof -
  let ?f = "findOrCreate (\<lambda>x. x) a \<lparr> rowData = a, firstSeen = tid \<rparr> (attributesTable (fst s))"
  have "attributesTable (fst (upsertAttribute tid s a)) = fst ?f"
    by (simp add: upsertAttribute_def split: prod.split)
  then show ?thesis
    using findOrCreate_keys [of "\<lambda>x. x" "\<lparr> rowData = a, firstSeen = tid \<rparr>" a
        "attributesTable (fst s)"]
    by (simp add: attributeTexts_def)
qed

lemma upsertAttribute_others:
  "instructorsTable (fst (upsertAttribute tid s a)) = instructorsTable (fst s)"
  "levelsTable (fst (upsertAttribute tid s a)) = levelsTable (fst s)"
  "subjectsTable (fst (upsertAttribute tid s a)) = subjectsTable (fst s)"
  by (simp_all add: upsertAttribute_def split: prod.split)

lemma foldl_upsertAttribute_known:
  "set as \<subseteq> attributeTexts (fst s) \<Longrightarrow> foldl (upsertAttribute tid) s as = s"
  by (induction as) (simp_all add: upsertAttribute_known)

lemma foldl_upsertAttribute_texts:
  "attributeTexts (fst (foldl (upsertAttribute tid) s as)) = attributeTexts (fst s) \<union> set as"
  by (induction as arbitrary: s) (auto simp: upsertAttribute_texts)

lemma foldl_upsertAttribute_others:
  "instructorsTable (fst (foldl (upsertAttribute tid) s as)) = instructorsTable (fst s)"
  "levelsTable (fst (foldl (upsertAttribute tid) s as)) = levelsTable (fst s)"
  "subjectsTable (fst (foldl (upsertAttribute tid) s as)) = subjectsTable (fst s)"
  by (induction as arbitrary: s) (simp_all add: upsertAttribute_others)

subsection \<open>Levels\<close>

lemma upsertLevel_known:
  "l \<in> levelTexts (fst s) \<Longrightarrow> upsertLevel tid s l = s"
  by (simp add: upsertLevel_def levelTexts_def findOrCreate_hit)

lemma upsertLevel_texts:
  "levelTexts (fst (upsertLevel tid s l)) = insert l (levelTexts (fst s))"
proof -
  let ?f = "findOrCreate (\<lambda>x. x) l \<lparr> rowData = l, firstSeen = tid \<rparr> (levelsTable (fst s))"
  have "levelsTable (fst (upsertLevel tid s l)) = fst ?f"
    by (simp add: upsertLevel_def split: prod.split)
  then show ?thesis
    using findOrCreate_keys [of "\<lambda>x. x" "\<lparr> rowData = l, firstSeen = tid \<rparr>" l
        "levelsTable (fst s)"]
    by (simp add: levelTexts_def)
qed

lemma upsertLevel_others:
  "instructorsTable (fst (upsertLevel tid s l)) = instructorsTable (fst s)"
  "attributesTable (fst (upsertLevel tid s l)) = attributesTable (fst s)"
  "subjectsTable (fst (upsertLevel tid s l)) = subjectsTable (fst s)"
  by (simp_all add: upsertLevel_def split: prod.split)

lemma foldl_upsertLevel_known:
  "set ls \<subseteq> levelTexts (fst s) \<Longrightarrow> foldl (upsertLevel tid) s ls = s"
  by (induction ls) (simp_all add: upsertLevel_known)

lemma foldl_upsertLevel_texts:
  "levelTexts (fst (foldl (upsertLevel tid) s ls)) = levelTexts (fst s) \<union> set ls"
  by (induction ls arbitrary: s) (auto simp: upsertLevel_texts)

lemma foldl_upsertLevel_others:
  "instructorsTable (fst (foldl (upsertLevel tid) s ls)) = instructorsTable (fst s)"
  "attributesTable (fst (foldl (upsertLevel tid) s ls)) = attributesTable (fst s)"
  "subjectsTable (fst (foldl (upsertLevel tid) s ls)) = subjectsTable (fst s)"
  by (induction ls arbitrary: s) (simp_all add: upsertLevel_others)

subsection \<open>The body of the loop\<close>

lemma persistStep_known:
  assumes "instructorKeys ins c \<subseteq> instructorNames (fst s)"
    and "attributeKeys c \<subseteq> attributeTexts (fst s)"
    and "levelKeys c \<subseteq> levelTexts (fst s)"
  shows "persistStep tid ins s c =
           ((fst s)\<lparr>crnsTable := crnsTable (fst s) @ [(snd c, tid)]\<rparr>, snd s)"
proof -
  have 1: "upsertInstructor tid (idx ins (fst c)) s = s"
    using assms(1) by (simp add: upsertInstructor_known instructorKeys_def)
  have 2: "foldl (upsertAttribute tid) s (tokens (attributes (snd c))) = s"
    using assms(2) by (simp add: foldl_upsertAttribute_known attributeKeys_def)
  have 3: "foldl (upsertLevel tid) s (tokens (levels (snd c))) = s"
    using assms(3) by (simp add: foldl_upsertLevel_known levelKeys_def)
  show ?thesis by (simp add: persistStep_def 1 2 3)
qed

lemma persistStep_keys:
  "instructorNames (fst (persistStep tid ins s c)) = instructorNames (fst s) \<union> instructorKeys ins c"
  "attributeTexts (fst (persistStep tid ins s c)) = attributeTexts (fst s) \<union> attributeKeys c"
  "levelTexts (fst (persistStep tid ins s c)) = levelTexts (fst s) \<union> levelKeys c"
proof -
  let ?s1 = "upsertInstructor tid (idx ins (fst c)) s"
  let ?s2 = "foldl (upsertAttribute tid) ?s1 (tokens (attributes (snd c)))"
  let ?s3 = "foldl (upsertLevel tid) ?s2 (tokens (levels (snd c)))"
  have i: "instructorsTable (fst (persistStep tid ins s c)) = instructorsTable (fst ?s1)"
    by (simp add: persistStep_def Let_def foldl_upsertLevel_others foldl_upsertAttribute_others)
  have a: "attributesTable (fst (persistStep tid ins s c)) = attributesTable (fst ?s2)"
    by (simp add: persistStep_def Let_def foldl_upsertLevel_others)
  have l: "levelsTable (fst (persistStep tid ins s c)) = levelsTable (fst ?s3)"
    by (simp add: persistStep_def Let_def)
  show "instructorNames (fst (persistStep tid ins s c)) = instructorNames (fst s) \<union> instructorKeys ins c"
    using upsertInstructor_names [of tid "idx ins (fst c)" s]
    by (simp add: instructorNames_def i instructorKeys_def)
  have "attributeTexts (fst ?s2) = attributeTexts (fst ?s1) \<union> attributeKeys c"
    by (simp add: foldl_upsertAttribute_texts attributeKeys_def)
  moreover have "attributeTexts (fst ?s1) = attributeTexts (fst s)"
    by (simp add: attributeTexts_def upsertInstructor_others)
  ultimately show "attributeTexts (fst (persistStep tid ins s c)) = attributeTexts (fst s) \<union> attributeKeys c"
    by (simp add: attributeTexts_def a)
  have "levelTexts (fst ?s3) = levelTexts (fst ?s2) \<union> levelKeys c"
    by (simp add: foldl_upsertLevel_texts levelKeys_def)
  moreover have "levelTexts (fst ?s2) = levelTexts (fst s)"
    by (simp add: levelTexts_def foldl_upsertAttribute_others upsertInstructor_others)
  ultimately show "levelTexts (fst (persistStep tid ins s c)) = levelTexts (fst s) \<union> levelKeys c"
    by (simp add: levelTexts_def l)
qed

lemma persistStep_subjects:
  "subjectsTable (fst (persistStep tid ins s c)) = subjectsTable (fst s)"
  by (simp add: persistStep_def Let_def foldl_upsertLevel_others foldl_upsertAttribute_others
      upsertInstructor_others)

lemma foldl_persistStep_known:
  assumes "\<forall>c \<in> set cs. instructorKeys ins c \<subseteq> instructorNames (fst s) \<and>
             attributeKeys c \<subseteq> attributeTexts (fst s) \<and> levelKeys c \<subseteq> levelTexts (fst s)"
  shows "foldl (persistStep tid ins) s cs =
           ((fst s)\<lparr>crnsTable := crnsTable (fst s) @ map (\<lambda>c. (snd c, tid)) cs\<rparr>, snd s)"
  using assms
proof (induction cs arbitrary: s)
  case Nil
  then show ?case by simp
next
  case (Cons c cs)
  let ?s' = "((fst s)\<lparr>crnsTable := crnsTable (fst s) @ [(snd c, tid)]\<rparr>, snd s)"
  have step: "persistStep tid ins s c = ?s'"
    using Cons.prems by (intro persistStep_known) simp_all
  have keys: "instructorNames (fst ?s') = instructorNames (fst s)"
    "attributeTexts (fst ?s') = attributeTexts (fst s)"
    "levelTexts (fst ?s') = levelTexts (fst s)"
    by (simp_all add: instructorNames_def attributeTexts_def levelTexts_def)
  have "foldl (persistStep tid ins) ?s' cs =
          ((fst ?s')\<lparr>crnsTable := crnsTable (fst ?s') @ map (\<lambda>c. (snd c, tid)) cs\<rparr>, snd ?s')"
    using Cons.prems unfolding keys [symmetric] by (intro Cons.IH) simp
  then show ?case by (simp add: step)
qed

lemma foldl_persistStep_keys:
  "instructorNames (fst (foldl (persistStep tid ins) s cs)) =
     instructorNames (fst s) \<union> (\<Union>c \<in> set cs. instructorKeys ins c)"
  "attributeTexts (fst (foldl (persistStep tid ins) s cs)) =
     attributeTexts (fst s) \<union> (\<Union>c \<in> set cs. attributeKeys c)"
  "levelTexts (fst (foldl (persistStep tid ins) s cs)) =
     levelTexts (fst s) \<union> (\<Union>c \<in> set cs. levelKeys c)"
  by (induction cs arbitrary: s) (auto simp: persistStep_keys)

lemma foldl_persistStep_subjects:
  "subjectsTable (fst (foldl (persistStep tid ins) s cs)) = subjectsTable (fst s)"
  by (induction cs arbitrary: s) (simp_all add: persistStep_subjects)

subsection \<open>Subjects\<close>

lemma subjectLoop_known:
  "\<forall>c \<in> set items. \<exists>code. idx short (fst c) = Some code \<and> Some code \<in> subjectCodes db \<Longrightarrow>
     subjectLoop v tid short items (db, st) = (db, Inr st)"
proof (induction items)
  case Nil
  then show ?case by simp
next
  case (Cons c items)
  obtain i long where c: "c = (i, long)" by (cases c)
  from Cons.prems c obtain code where
    code: "idx short i = Some code" and
    "Some code \<in> (\<lambda>r. shortName (rowData r)) ` set (subjectsTable db)"
    by (auto simp: subjectCodes_def)
  then have "findOrCreate shortName (Some code)
      \<lparr> rowData = \<lparr> shortName = Some code, longName = long \<rparr>, firstSeen = tid \<rparr>
      (subjectsTable db) = (subjectsTable db, False)"
    by (intro findOrCreate_hit)
  then show ?case using Cons code by (simp add: c)
qed

lemma subjectLoop_codes:
  "subjectLoop v tid short items (db, st) = (db', Inr st') \<Longrightarrow>
     subjectCodes db' = subjectCodes db \<union> (\<lambda>c. idx short (fst c)) ` set items \<and>
     (\<forall>c \<in> set items. idx short (fst c) \<noteq> None)"
proof (induction items arbitrary: db st)
  case Nil
  then show ?case by simp
next
  case (Cons c items)
  obtain i long where c: "c = (i, long)" by (cases c)
  from Cons.prems c obtain code where code: "idx short i = Some code"
    by (cases "idx short i") auto
  let ?row = "\<lparr> rowData = \<lparr> shortName = Some code, longName = long \<rparr>, firstSeen = tid \<rparr>"
  obtain tbl new where f: "findOrCreate shortName (Some code) ?row (subjectsTable db) = (tbl, new)"
    by (cases "findOrCreate shortName (Some code) ?row (subjectsTable db)")
  have k: "subjectCodes (db\<lparr>subjectsTable := tbl\<rparr>) = insert (Some code) (subjectCodes db)"
    using findOrCreate_keys [of shortName ?row "Some code" "subjectsTable db"] f
    by (simp add: subjectCodes_def)
  show ?case
  proof (cases new)
    case True
    with Cons.prems f c code have nv: "\<not> v" by (auto split: if_splits)
    with Cons.prems f c code True
    have "subjectLoop v tid short items
            (db\<lparr>subjectsTable := tbl\<rparr>, st\<lparr>newSubjectCount := newSubjectCount st + 1\<rparr>) = (db', Inr st')"
      by simp
    from Cons.IH [OF this] k code show ?thesis by (auto simp: c)
  next
    case False
    with Cons.prems f c code
    have "subjectLoop v tid short items (db\<lparr>subjectsTable := tbl\<rparr>, st) = (db', Inr st')"
      by simp
    from Cons.IH [OF this] k code show ?thesis by (auto simp: c)
  qed
qed

lemma crawl_Inr_cases:
  assumes "crawl v tid page db = (db1, Inr rep)"
  obtains p dbS st1 doc res st2 where
    "page = Some p"
    "subjectLoop v tid (subjectShortName p) (enumerate 0 (subjectFullName p)) (db, zeroStats)
       = (dbS, Inr st1)"
    "listing p = Some doc"
    "totalResults doc = Inr res"
    "persist tid res (dbS, st1) = (db1, st2)"
    "rep = reportOf res st2"
  using assms
  by (auto simp: crawl_def split: option.splits prod.splits sum.splits)

text \<open>
  C3. When \<^verbatim>\<open>crawl\<close> has run to its end for a term, running it again for the same term on
  the same page and on the store it left also runs to its end, leaves the Subject,
  Instructor, Level and Attribute tables as they were (the same rows, so the same
  counts), and reports no new subject, instructor, level or attribute: every lookup by
  name, short code, level text or attribute text finds the row of the first run. Only
  the course rows are appended again.
\<close>

theorem reference_upsert_idempotent:
  assumes first: "crawl v tid page db = (db1, Inr rep1)"
  shows "\<exists>db2 rep2. crawl v tid page db1 = (db2, Inr rep2) \<and>
           subjectsTable db2 = subjectsTable db1 \<and>
           instructorsTable db2 = instructorsTable db1 \<and>
           levelsTable db2 = levelsTable db1 \<and>
           attributesTable db2 = attributesTable db1 \<and>
           newSubjects rep2 = 0 \<and> newInstructors rep2 = 0 \<and>
           newLevels rep2 = 0 \<and> newAttributes rep2 = 0 \<and>
           length (crnsTable db2) = length (crnsTable db1) + insertedCRNs rep2"
proof -
  from first obtain p dbS st1 doc res st2 where
    page: "page = Some p" and
    sl: "subjectLoop v tid (subjectShortName p) (enumerate 0 (subjectFullName p)) (db, zeroStats)
           = (dbS, Inr st1)" and
    doc: "listing p = Some doc" and
    res: "totalResults doc = Inr res" and
    ps: "persist tid res (dbS, st1) = (db1, st2)"
    by (rule crawl_Inr_cases)
  let ?items = "enumerate 0 (subjectFullName p)"
  let ?cs = "enumerate 0 (crnInfo res)"
  let ?ins = "instructorInfo res"
  have db1: "db1 = fst (foldl (persistStep tid ?ins) (dbS, st1) ?cs)"
    using ps by (simp add: persist_def)
  have "subjectsTable db1 = subjectsTable dbS"
    unfolding db1 by (simp add: foldl_persistStep_subjects)
  then have same: "subjectCodes db1 = subjectCodes dbS"
    by (simp add: subjectCodes_def)
  note codes = subjectLoop_codes [OF sl]
  have "\<forall>c \<in> set ?items. \<exists>code. idx (subjectShortName p) (fst c) = Some code \<and>
          Some code \<in> subjectCodes db1"
  proof
    fix c
    assume c: "c \<in> set ?items"
    with codes obtain code where code: "idx (subjectShortName p) (fst c) = Some code"
      by (cases "idx (subjectShortName p) (fst c)") auto
    have "idx (subjectShortName p) (fst c) \<in> subjectCodes db1"
      using codes c same by simp
    with code show "\<exists>code. idx (subjectShortName p) (fst c) = Some code \<and>
        Some code \<in> subjectCodes db1"
      by simp
  qed
  then have sl2: "subjectLoop v tid (subjectShortName p) ?items (db1, zeroStats)
                    = (db1, Inr zeroStats)"
    by (rule subjectLoop_known)
  have "\<forall>c \<in> set ?cs. instructorKeys ?ins c \<subseteq> instructorNames (fst (db1, zeroStats)) \<and>
          attributeKeys c \<subseteq> attributeTexts (fst (db1, zeroStats)) \<and>
          levelKeys c \<subseteq> levelTexts (fst (db1, zeroStats))"
    unfolding db1 by (auto simp: foldl_persistStep_keys)
  then have ps2: "persist tid res (db1, zeroStats) =
      (db1\<lparr>crnsTable := crnsTable db1 @ map (\<lambda>c. (snd c, tid)) ?cs\<rparr>, zeroStats)"
    unfolding persist_def using foldl_persistStep_known [of ?cs ?ins "(db1, zeroStats)" tid]
    by simp
  have "crawl v tid page db1 =
      (db1\<lparr>crnsTable := crnsTable db1 @ map (\<lambda>c. (snd c, tid)) ?cs\<rparr>,
       Inr (reportOf res zeroStats))"
    by (simp add: crawl_def page sl2 doc res ps2)
  then show ?thesis
    by (simp add: reportOf_def zeroStats_def)
qed

lemma first_crawl: "crawl False ''200520'' (Some samplePage) emptyStore = (afterFirstCrawl, Inr firstReport)"
  by code_simp

text \<open>The sample page crawled twice as term \<^verbatim>\<open>200520\<close>, from the empty store.\<close>

theorem reference_upsert_idempotent_witness:
  "crawl False ''200520'' (Some samplePage) emptyStore = (afterFirstCrawl, Inr firstReport) \<and>
   length (subjectsTable afterFirstCrawl) = 2 \<and> length (levelsTable afterFirstCrawl) = 2 \<and>
   (\<exists>db2 rep2. crawl False ''200520'' (Some samplePage) afterFirstCrawl = (db2, Inr rep2) \<and>
      subjectsTable db2 = subjectsTable afterFirstCrawl \<and>
      instructorsTable db2 = instructorsTable afterFirstCrawl \<and>
      levelsTable db2 = levelsTable afterFirstCrawl \<and>
      attributesTable db2 = attributesTable afterFirstCrawl \<and>
      newSubjects rep2 = 0 \<and> newInstructors rep2 = 0 \<and> newAttributes rep2 = 0)"
proof -
  have "length (subjectsTable afterFirstCrawl) = 2" "length (levelsTable afterFirstCrawl) = 2"
    by (simp_all add: afterFirstCrawl_def afterFirstTerm_def)
  with reference_upsert_idempotent [OF first_crawl] first_crawl show ?thesis
    by blast
qed

section \<open>A subject seen in two terms\<close>

lemma subjectLoop_rows:
  "subjectLoop v tid short items (db, st) = (db', out) \<Longrightarrow>
     \<exists>new. subjectsTable db' = subjectsTable db @ new \<and>
       (\<forall>r \<in> set new. firstSeen r = tid) \<and>
       (distinct (map (\<lambda>r. shortName (rowData r)) (subjectsTable db)) \<longrightarrow>
        distinct (map (\<lambda>r. shortName (rowData r)) (subjectsTable db')))"
proof (induction items arbitrary: db st)
  case Nil
  then show ?case by simp
next
  case (Cons c items)
  obtain i long where c: "c = (i, long)" by (cases c)
  let ?key = "\<lambda>r. shortName (rowData r)"
  show ?case
  proof (cases "idx short i")
    case None
    with Cons.prems c have "db' = db" by simp
    then show ?thesis by simp
  next
    case (Some code)
    let ?row = "\<lparr> rowData = \<lparr> shortName = Some code, longName = long \<rparr>, firstSeen = tid \<rparr>"
    show ?thesis
    proof (cases "Some code \<in> ?key ` set (subjectsTable db)")
      case True
      then have f: "findOrCreate shortName (Some code) ?row (subjectsTable db)
                      = (subjectsTable db, False)"
        by (rule findOrCreate_hit)
      with Cons.prems c Some have "subjectLoop v tid short items (db, st) = (db', out)"
        by simp
      from Cons.IH [OF this] show ?thesis .
    next
      case False
      then have f: "findOrCreate shortName (Some code) ?row (subjectsTable db)
                      = (subjectsTable db @ [?row], True)"
        by (rule findOrCreate_miss)
      let ?db = "db\<lparr>subjectsTable := subjectsTable db @ [?row]\<rparr>"
      have d: "distinct (map ?key (subjectsTable db)) \<longrightarrow> distinct (map ?key (subjectsTable ?db))"
        using False by auto
      show ?thesis
      proof (cases v)
        case True
        with Cons.prems c f Some have "db' = ?db" by simp
        with d show ?thesis by simp
      next
        case nv: False
        with Cons.prems c f Some
        have "subjectLoop v tid short items
                (?db, st\<lparr>newSubjectCount := newSubjectCount st + 1\<rparr>) = (db', out)"
          by simp
        from Cons.IH [OF this] obtain new where
          n: "subjectsTable db' = subjectsTable ?db @ new"
          "\<forall>r \<in> set new. firstSeen r = tid"
          "distinct (map ?key (subjectsTable ?db)) \<longrightarrow> distinct (map ?key (subjectsTable db'))"
          by blast
        have "subjectsTable db' = subjectsTable db @ (?row # new)"
          using n(1) by simp
        moreover have "\<forall>r \<in> set (?row # new). firstSeen r = tid"
          using n(2) by simp
        ultimately show ?thesis using n(3) d by blast
      qed
    qed
  qed
qed

lemma filter_distinct_key:
  "distinct (map f xs) \<Longrightarrow> x \<in> set xs \<Longrightarrow> filter (\<lambda>r. f r = f x) xs = [x]"
proof (induction xs)
  case Nil
  then show ?case by simp
next
  case (Cons y ys)
  show ?case
  proof (cases "x = y")
    case True
    have "filter (\<lambda>r. f r = f y) ys = []"
      using Cons.prems(1) by (force simp: filter_empty_conv image_iff)
    with True show ?thesis by simp
  next
    case False
    with Cons.prems have "x \<in> set ys" "f y \<noteq> f x" by auto
    with Cons show ?thesis by simp
  qed
qed

lemma crawl_subjects:
  assumes "crawl v tid page db = (db', Inr rep)"
  obtains p new where "page = Some p"
    "subjectsTable db' = subjectsTable db @ new"
    "\<forall>r \<in> set new. firstSeen r = tid"
    "distinct (map (\<lambda>r. shortName (rowData r)) (subjectsTable db)) \<longrightarrow>
     distinct (map (\<lambda>r. shortName (rowData r)) (subjectsTable db'))"
    "set (observedSubjects p) \<subseteq> subjectCodes db'"
proof -
  from assms obtain p dbS st1 doc res st2 where
    page: "page = Some p" and
    sl: "subjectLoop v tid (subjectShortName p) (enumerate 0 (subjectFullName p)) (db, zeroStats)
           = (dbS, Inr st1)" and
    doc: "listing p = Some doc" and
    ps: "persist tid res (dbS, st1) = (db', st2)"
    by (rule crawl_Inr_cases)
  have same: "subjectsTable db' = subjectsTable dbS"
    using ps foldl_persistStep_subjects [of tid "instructorInfo res" "(dbS, st1)"
        "enumerate 0 (crnInfo res)"]
    by (simp add: persist_def)
  from subjectLoop_rows [OF sl] obtain new where
    "subjectsTable dbS = subjectsTable db @ new" "\<forall>r \<in> set new. firstSeen r = tid"
    "distinct (map (\<lambda>r. shortName (rowData r)) (subjectsTable db)) \<longrightarrow>
     distinct (map (\<lambda>r. shortName (rowData r)) (subjectsTable dbS))"
    by blast
  moreover have "set (observedSubjects p) \<subseteq> subjectCodes db'"
    using subjectLoop_codes [OF sl] same by (auto simp: observedSubjects_def subjectCodes_def)
  ultimately show ?thesis using page same that by simp
qed

text \<open>
  C9. Two terms are crawled one after the other, starting from a store whose Subject
  table has no two rows of one short code and no row of the code in question (as the
  empty store of a run). If both pages list the code, then after the second term the
  table holds exactly one row of that code, it is the row that the table held after the
  first term, unchanged (long name included), and its first-seen term is the first term.
\<close>

theorem subject_row_first_seen_kept:
  assumes c1: "crawl v t1 page1 db0 = (db1, Inr r1)"
    and c2: "crawl v t2 page2 db1 = (db2, Inr r2)"
    and dist: "distinct (map (\<lambda>r. shortName (rowData r)) (subjectsTable db0))"
    and fresh: "Some code \<notin> subjectCodes db0"
    and k1: "page1 = Some p1" "Some code \<in> set (observedSubjects p1)"
    and k2: "page2 = Some p2" "Some code \<in> set (observedSubjects p2)"
  shows "\<exists>row. filter (\<lambda>r. shortName (rowData r) = Some code) (subjectsTable db2) = [row] \<and>
           filter (\<lambda>r. shortName (rowData r) = Some code) (subjectsTable db1) = [row] \<and>
           firstSeen row = t1"
proof -
  let ?key = "\<lambda>r. shortName (rowData r)"
  from c1 obtain p new1 where
    a: "page1 = Some p" "subjectsTable db1 = subjectsTable db0 @ new1"
      "\<forall>r \<in> set new1. firstSeen r = t1"
      "distinct (map ?key (subjectsTable db0)) \<longrightarrow> distinct (map ?key (subjectsTable db1))"
      "set (observedSubjects p) \<subseteq> subjectCodes db1"
    by (rule crawl_subjects)
  from c2 obtain q new2 where
    b: "subjectsTable db2 = subjectsTable db1 @ new2"
      "distinct (map ?key (subjectsTable db1)) \<longrightarrow> distinct (map ?key (subjectsTable db2))"
    by (rule crawl_subjects)
  have d1: "distinct (map ?key (subjectsTable db1))" using a(4) dist by simp
  then have d2: "distinct (map ?key (subjectsTable db2))" using b(2) by simp
  have "Some code \<in> subjectCodes db1" using a(1,5) k1 by auto
  then obtain row where row: "row \<in> set (subjectsTable db1)" "?key row = Some code"
    by (auto simp: subjectCodes_def)
  have "row \<notin> set (subjectsTable db0)"
    using row(2) fresh by (force simp: subjectCodes_def image_iff)
  then have fs: "firstSeen row = t1" using row(1) a(2,3) by auto
  have row2: "row \<in> set (subjectsTable db2)" using row(1) b(1) by simp
  have "filter (\<lambda>r. ?key r = ?key row) (subjectsTable db1) = [row]"
    using d1 row(1) by (rule filter_distinct_key)
  moreover have "filter (\<lambda>r. ?key r = ?key row) (subjectsTable db2) = [row]"
    using d2 row2 by (rule filter_distinct_key)
  ultimately show ?thesis using fs row(2) by simp
qed

lemma second_crawl:
  "crawl False ''201910'' (Some renamedPage) afterFirstCrawl = (afterSecondCrawl, Inr secondReport)"
  by code_simp

lemma coe_observed:
  "Some ''COE'' \<in> set (observedSubjects samplePage)"
  "Some ''COE'' \<in> set (observedSubjects renamedPage)"
  by (simp_all add: observedSubjects_def samplePage_def renamedPage_def enumerate_eq_zip idx_def)

text \<open>
  \<^verbatim>\<open>COE\<close> is listed in term \<^verbatim>\<open>200520\<close> and, under another long name, in term \<^verbatim>\<open>201910\<close>.
\<close>

theorem subject_row_first_seen_kept_witness:
  "crawl False ''200520'' (Some samplePage) emptyStore = (afterFirstCrawl, Inr firstReport) \<and>
   crawl False ''201910'' (Some renamedPage) afterFirstCrawl = (afterSecondCrawl, Inr secondReport) \<and>
   filter (\<lambda>r. shortName (rowData r) = Some ''COE'') (subjectsTable afterSecondCrawl) = [coeRow] \<and>
   longName (rowData coeRow) = ''Computer Engineering'' \<and> firstSeen coeRow = ''200520''"
proof -
  have dist: "distinct (map (\<lambda>r. shortName (rowData r)) (subjectsTable emptyStore))"
    by (simp add: emptyStore_def)
  have fresh: "Some ''COE'' \<notin> subjectCodes emptyStore"
    by (simp add: subjectCodes_def emptyStore_def)
  have "filter (\<lambda>r. shortName (rowData r) = Some ''COE'') (subjectsTable afterFirstCrawl) = [coeRow]"
    by (simp add: afterFirstCrawl_def afterFirstTerm_def coeRow_def)
  with subject_row_first_seen_kept [OF first_crawl second_crawl dist fresh refl coe_observed(1)
      refl coe_observed(2)]
  have "filter (\<lambda>r. shortName (rowData r) = Some ''COE'') (subjectsTable afterSecondCrawl) = [coeRow]"
    by auto
  then show ?thesis using first_crawl second_crawl by (simp add: coeRow_def)
qed

section \<open>The loop over the terms\<close>

lemma storeExtends_refl: "storeExtends db db"
  by (simp add: storeExtends_def)

lemma storeExtends_trans [trans]: "storeExtends a b \<Longrightarrow> storeExtends b c \<Longrightarrow> storeExtends a c"
  unfolding storeExtends_def by (meson prefix_order.trans)

lemma findOrCreate_prefix: "prefix tbl (fst (findOrCreate key k d tbl))"
  by (simp add: findOrCreate_def split: option.split)

lemma subjectLoop_extends:
  "storeExtends db (fst (subjectLoop v tid short items (db, st)))"
proof (induction items arbitrary: db st)
  case Nil
  then show ?case by (simp add: storeExtends_refl)
next
  case (Cons c items)
  obtain i long where c: "c = (i, long)" by (cases c)
  show ?case
  proof (cases "idx short i")
    case None
    then show ?thesis by (simp add: c storeExtends_refl)
  next
    case (Some code)
    let ?row = "\<lparr> rowData = \<lparr> shortName = Some code, longName = long \<rparr>, firstSeen = tid \<rparr>"
    obtain tbl new where f: "findOrCreate shortName (Some code) ?row (subjectsTable db) = (tbl, new)"
      by (cases "findOrCreate shortName (Some code) ?row (subjectsTable db)")
    have p: "prefix (subjectsTable db) tbl"
      using findOrCreate_prefix [of "subjectsTable db" shortName "Some code" ?row] f by simp
    have step: "storeExtends db (db\<lparr>subjectsTable := tbl\<rparr>)"
      using p by (simp add: storeExtends_def)
    show ?thesis
      using step Cons.IH [of "db\<lparr>subjectsTable := tbl\<rparr>"]
      by (cases new) (auto simp: c f Some intro: storeExtends_trans)
  qed
qed

lemma findOrCreate_prefixD: "findOrCreate key k d tbl = (tbl', new) \<Longrightarrow> prefix tbl tbl'"
  using findOrCreate_prefix [of tbl key k d] by simp

lemma upsertInstructor_extends: "storeExtends (fst s) (fst (upsertInstructor tid ins s))"
  by (auto simp: upsertInstructor_def storeExtends_def split: option.split prod.split
      dest: findOrCreate_prefixD)

lemma upsertAttribute_extends: "storeExtends (fst s) (fst (upsertAttribute tid s a))"
  by (auto simp: upsertAttribute_def storeExtends_def split: prod.split
      dest: findOrCreate_prefixD)

lemma upsertLevel_extends: "storeExtends (fst s) (fst (upsertLevel tid s l))"
  by (auto simp: upsertLevel_def storeExtends_def split: prod.split
      dest: findOrCreate_prefixD)

lemma foldl_extends:
  assumes "\<And>s x. storeExtends (fst s) (fst (f s x))"
  shows "storeExtends (fst s) (fst (foldl f s xs))"
proof (induction xs arbitrary: s)
  case Nil
  then show ?case by (simp add: storeExtends_refl)
next
  case (Cons x xs)
  show ?case using assms [of s x] Cons.IH [of "f s x"] by (auto intro: storeExtends_trans)
qed

lemma persistStep_extends: "storeExtends (fst s) (fst (persistStep tid ins s c))"
proof -
  let ?s1 = "upsertInstructor tid (idx ins (fst c)) s"
  let ?s2 = "foldl (upsertAttribute tid) ?s1 (tokens (attributes (snd c)))"
  let ?s3 = "foldl (upsertLevel tid) ?s2 (tokens (levels (snd c)))"
  have "storeExtends (fst s) (fst ?s1)" by (rule upsertInstructor_extends)
  also have "storeExtends (fst ?s1) (fst ?s2)"
    by (rule foldl_extends) (rule upsertAttribute_extends)
  also have "storeExtends (fst ?s2) (fst ?s3)"
    by (rule foldl_extends) (rule upsertLevel_extends)
  also have "storeExtends (fst ?s3) (fst (persistStep tid ins s c))"
    by (simp add: persistStep_def Let_def storeExtends_def)
  finally show ?thesis .
qed

lemma persist_extends: "storeExtends (fst s) (fst (persist tid res s))"
  unfolding persist_def by (rule foldl_extends) (rule persistStep_extends)

lemma crawl_extends: "storeExtends db (fst (crawl v tid page db))"
proof (cases page)
  case None
  then show ?thesis by (simp add: crawl_def storeExtends_refl)
next
  case (Some p)
  let ?sl = "subjectLoop v tid (subjectShortName p) (enumerate 0 (subjectFullName p)) (db, zeroStats)"
  have s: "storeExtends db (fst ?sl)" by (rule subjectLoop_extends)
  show ?thesis
  proof (cases ?sl)
    case (Pair db1 out)
    show ?thesis
    proof (cases out)
      case (Inl err)
      with s Pair Some show ?thesis by (simp add: crawl_def)
    next
      case (Inr st1)
      show ?thesis
      proof (cases "listing p")
        case None
        with s Pair Some Inr show ?thesis by (simp add: crawl_def)
      next
        case doc: (Some doc)
        show ?thesis
        proof (cases "totalResults doc")
          case err: (Inl err)
          with s Pair Some Inr doc show ?thesis by (simp add: crawl_def)
        next
          case res: (Inr res)
          have "storeExtends db1 (fst (persist tid res (db1, st1)))"
            using persist_extends [of "(db1, st1)" tid res] by simp
          with s Pair have "storeExtends db (fst (persist tid res (db1, st1)))"
            by (auto intro: storeExtends_trans)
          with Pair Some Inr doc res show ?thesis
            by (cases "persist tid res (db1, st1)") (simp add: crawl_def)
        qed
      qed
    qed
  qed
qed

lemma crawlTerms_append:
  "crawlTerms v u (pre @ ts) db =
     (case crawlTerms v u pre db of
        (db1, reps, None) \<Rightarrow>
          (case crawlTerms v u ts db1 of (db2, reps2, out) \<Rightarrow> (db2, reps @ reps2, out))
      | (db1, reps, Some e) \<Rightarrow> (db1, reps, Some e))"
proof (induction pre arbitrary: db)
  case Nil
  then show ?case by (simp split: prod.split)
next
  case (Cons t pre)
  show ?case
    by (simp add: Cons.IH split: prod.split sum.split option.split)
qed

text \<open>
  C8 as amended. A failure in a stage of one term (the waits of the subject page or of the
  listing page, the subject loop, the extraction) is not scoped to that term: when the
  terms before it were crawled and its own \<^verbatim>\<open>crawl\<close> rejects, the run ends there with exit
  code 1, whatever terms remain; the store is the one the failing \<^verbatim>\<open>crawl\<close> left, and it
  extends the store as it was after the earlier terms, so their rows are kept. A failure
  of the discovery (no option of value \<^verbatim>\<open>200520\<close>) ends the run with exit code 1 as well,
  with an empty store.
\<close>

theorem failure_ends_run:
  assumes opt: "''200520'' \<in> set (map fst opts)"
    and terms: "discoverTerms opts = pre @ t # rest"
    and pre: "crawlTerms verbose upstream pre (emptyStore\<lparr>semestersTable := discoverTerms opts\<rparr>)
                = (db1, reps, None)"
    and fail: "crawl verbose (termID t) (upstream (termID t)) db1 = (db2, Inl err)"
  shows "startCrawl verbose opts upstream = (db2, reps, 1) \<and> storeExtends db1 db2 \<and>
         (\<forall>opts'. ''200520'' \<notin> set (map fst opts') \<longrightarrow>
            startCrawl verbose opts' upstream = (emptyStore, [], 1))"
proof -
  have "crawlTerms verbose upstream (t # rest) db1 = (db2, [], Some err)"
    using fail by simp
  then have "crawlTerms verbose upstream (pre @ t # rest)
               (emptyStore\<lparr>semestersTable := discoverTerms opts\<rparr>) = (db2, reps, Some err)"
    using pre by (simp add: crawlTerms_append)
  then have "startCrawl verbose opts upstream = (db2, reps, 1)"
    using opt terms by (simp add: startCrawl_def Let_def)
  moreover have "storeExtends db1 db2"
    using crawl_extends [of db1 verbose "termID t" "upstream (termID t)"] fail by simp
  moreover have "\<forall>opts'. ''200520'' \<notin> set (map fst opts') \<longrightarrow>
      startCrawl verbose opts' upstream = (emptyStore, [], 1)"
    by (simp add: startCrawl_def)
  ultimately show ?thesis by simp
qed

lemma twoTerms_discovered: "discoverTerms twoTerms = [fall2005] @ fall2019Term # []"
  by code_simp

lemma earlier_crawled:
  "crawlTerms False listingFailsLater [fall2005]
     (emptyStore\<lparr>semestersTable := discoverTerms twoTerms\<rparr>) = (afterFirstTerm, [firstReport], None)"
  by code_simp

lemma later_fails:
  "crawl False (termID fall2019Term) (listingFailsLater (termID fall2019Term)) afterFirstTerm =
     (afterFailure, Inl TimeoutError)"
  by code_simp

text \<open>
  The listing of the later term does not load: exit code 1; the rows of the earlier term
  and the subject row of the later term are kept.
\<close>

theorem failure_ends_run_witness:
  "startCrawl False twoTerms listingFailsLater = (afterFailure, [firstReport], 1) \<and>
   storeExtends afterFirstTerm afterFailure \<and>
   crnsTable afterFailure = [(roboticsInfo, ''200520'')] \<and>
   startCrawl False [] listingFailsLater = (emptyStore, [], 1)"
proof -
  have opt: "''200520'' \<in> set (map fst twoTerms)"
    by (simp add: twoTerms_def)
  from failure_ends_run [OF opt twoTerms_discovered earlier_crawled later_fails]
  show ?thesis by (simp add: afterFailure_def afterFirstTerm_def)
qed

text \<open>
  C8 as stated fails. The page of term \<^verbatim>\<open>200520\<close> does not load, that of term \<^verbatim>\<open>201910\<close>
  would: the loop does not go on to \<^verbatim>\<open>201910\<close> (no subject, no course and no report of it),
  and the run ends with exit code 1 although the terms were discovered.
\<close>

theorem failure_not_scoped_to_term:
  "discoverTerms twoTerms = [fall2005, fall2019Term] \<and>
   laterOnly ''201910'' = Some samplePage \<and>
   startCrawl False twoTerms laterOnly =
     (emptyStore\<lparr>semestersTable := [fall2005, fall2019Term]\<rparr>, [], 1)"
  by code_simp

section \<open>The statistics\<close>

text \<open>
  C10. The sample page crawled into an empty store: two Level rows are inserted and no
  Attribute row, and the report says no new level and two new attributes.
\<close>

theorem level_count_reported_as_attributes:
  "crawl False ''200520'' (Some samplePage) emptyStore =
     (afterFirstTerm\<lparr>semestersTable := []\<rparr>, Inr firstReport) \<and>
   length (levelsTable afterFirstTerm) = 2 \<and> newLevels firstReport = 0 \<and>
   length (attributesTable afterFirstTerm) = 0 \<and> newAttributes firstReport = 2"
  by code_simp

end
